theory Spec2Isabelle
  imports Complex_Main
begin

section \<open>The scrypt command-line driver (main.c)\<close>

text \<open>
  The driver is modelled as a function from the command line and the answers of its
  collaborators (option lexer, number parsers, file system, passphrase readers and the
  scrypt library) to the sequence of observable actions it performs and its exit code.
  Values of type \<open>double\<close> are modelled by the real number they denote; every constant
  of the source (0, 0.125, 0.5, 1, 5.0, 300.0) is exactly representable.
\<close>

subsection \<open>Data\<close>

text \<open>\<open>enum passphrase_entry\<close>.\<close>

datatype passphrase_entry =
    PASSPHRASE_UNSET
  | PASSPHRASE_TTY_STDIN
  | PASSPHRASE_STDIN_ONCE
  | PASSPHRASE_TTY_ONCE
  | PASSPHRASE_ENV
  | PASSPHRASE_FILE

text \<open>
  \<open>struct scryptenc_params\<close>, with the fields in the order of the initialiser
  \<open>{0, 0.5, 300.0, 0, 0, 0}\<close> and the names used by \<open>main\<close>.
\<close>

record scryptenc_params =
  maxmem :: nat
  maxmemfrac :: real
  maxtime :: real
  logN :: int
  r :: nat
  p :: nat

text \<open>
  The return codes of the scrypt library, as the \<open>switch\<close> at label \<open>done\<close> lists them.
  The labels of one \<open>switch\<close> are pairwise distinct integers, and \<open>SCRYPT_OK\<close> is the
  value tested against first.
\<close>

datatype scrypt_rc =
    SCRYPT_OK
  | SCRYPT_ELIMIT
  | SCRYPT_ECLOCK
  | SCRYPT_EKEY
  | SCRYPT_ESALT
  | SCRYPT_EOPENSSL
  | SCRYPT_ENOMEM
  | SCRYPT_EINVAL
  | SCRYPT_EVERSION
  | SCRYPT_ETOOBIG
  | SCRYPT_ETOOSLOW
  | SCRYPT_EPASS
  | SCRYPT_EWRFILE
  | SCRYPT_ERDFILE
  | SCRYPT_EPARAM

text \<open>
  What one call of \<open>GETOPT(argc, argv)\<close> hands to the \<open>GETOPT_SWITCH\<close>: an option
  without argument, an option with its \<open>optarg\<close>, an option whose argument is missing,
  or anything else. The first component is always \<open>ch\<close>.
\<close>

datatype getopt_result =
    GETOPT_OPT string
  | GETOPT_OPTARG string string
  | GETOPT_MISSING_ARG string
  | GETOPT_DEFAULT string

text \<open>
  The observable actions of \<open>main\<close>, in program order. Calls to collaborators carry their
  arguments and the answer they gave.
\<close>

datatype event =
    Warn0 string
    \<comment> \<open>\<open>warn0(msg)\<close>: the formatted message\<close>
  | Warnp string
    \<comment> \<open>\<open>warnp(msg)\<close>: the formatted message, which the callee follows with \<open>strerror(errno)\<close>\<close>
  | Usage
    \<comment> \<open>the usage text written by \<open>usage()\<close>\<close>
  | Stdout string
  | Fopen_rb string bool
    \<comment> \<open>\<open>fopen(infilename, "rb")\<close> and whether it returned a stream\<close>
  | Fopen_wb string bool
    \<comment> \<open>\<open>fopen(outfilename, "wb")\<close> and whether it returned a stream\<close>
  | Scryptdec_file_printparams scrypt_rc
  | Readpass string "string option" int "string option"
    \<comment> \<open>\<open>readpass(&passwd, prompt, confirmprompt, devtty)\<close> and the passphrase read, if any\<close>
  | Getenv string "string option"
  | Strdup string bool
    \<comment> \<open>\<open>strdup(passwd_env)\<close> and whether it returned a copy\<close>
  | Readpass_file string "string option"
  | Scryptdec_file_prep string scryptenc_params bool bool scrypt_rc
    \<comment> \<open>passphrase, parameters, verbose, force, and the return code\<close>
  | Scryptdec_file_copy scrypt_rc
  | Scryptenc_file string scryptenc_params bool scrypt_rc
    \<comment> \<open>passphrase, parameters, verbose, and the return code\<close>
  | Scryptdec_file_cookie_free
  | Insecure_memzero nat
    \<comment> \<open>\<open>insecure_memzero(passwd, strlen(passwd))\<close>: the number of bytes cleared\<close>
  | Free_passwd string
    \<comment> \<open>\<open>free(passwd)\<close>: the contents of the buffer at the moment it is released\<close>
  | Fclose_infile
  | Fclose_outfile

text \<open>The trace of a run and the exit code of the process.\<close>

type_synonym outcome = "event list \<times> int"

text \<open>
  The collaborators of \<open>main\<close>. None of them is defined in main.c; each is a parameter of
  the model. \<open>getopt\<close> lexes the command line after the subcommand into the sequence of
  results that the loop \<open>while ((ch = GETOPT(argc, argv)) != NULL)\<close> sees, and the
  operands left at \<open>argv + optind\<close>.
\<close>

record world =
  getopt :: "string list \<Rightarrow> getopt_result list \<times> string list"
  strtoi :: "string \<Rightarrow> int option"
  strtod :: "string \<Rightarrow> real option"
  humansize_parse :: "string \<Rightarrow> nat option"
  SIZE_MAX :: nat
  PACKAGE_VERSION :: string
  fopen_rb :: "string \<Rightarrow> bool"
  fopen_wb :: "string \<Rightarrow> bool"
  scryptdec_file_printparams :: scrypt_rc
  readpass :: "string \<Rightarrow> string option \<Rightarrow> int \<Rightarrow> string option"
  getenv :: "string \<Rightarrow> string option"
  strdup_ok :: bool
  readpass_file :: "string \<Rightarrow> string option"
  scryptdec_file_prep :: "string \<Rightarrow> scryptenc_params \<Rightarrow> bool \<Rightarrow> bool \<Rightarrow> scrypt_rc"
  scryptdec_file_copy :: scrypt_rc
  scryptenc_file :: "string \<Rightarrow> scryptenc_params \<Rightarrow> bool \<Rightarrow> scrypt_rc"

text \<open>The local variables of \<open>main\<close> that the option loop reads and writes.\<close>

record locals =
  dec :: bool
  info :: bool
  force_resources :: bool
  params :: scryptenc_params
  verbose :: bool
  passphrase_entry :: passphrase_entry
  passphrase_arg :: "string option"

subsection \<open>Number parsing\<close>

text \<open>
  Modelled from the spec: parsenum.h, which defines the macro \<open>PARSENUM(x, s, min, max)\<close>,
  is not among the sources. The option table of the specification gives each numeric
  option an argument that is a number in a closed range, so the macro succeeds exactly
  when the string denotes a number \<open>v\<close> with \<open>min \<le> v \<le> max\<close>, and stores \<open>v\<close>.
  \<open>None\<close> is the non-zero return. The conversion from text is a parameter.
\<close>

definition PARSENUM_int :: "(string \<Rightarrow> int option) \<Rightarrow> string \<Rightarrow> int \<Rightarrow> int \<Rightarrow> int option" where
  "PARSENUM_int conv s lo hi =
     (case conv s of
        None \<Rightarrow> None
      | Some v \<Rightarrow> if v < lo \<or> hi < v then None else Some v)"

text \<open>
  The same macro at a \<open>double\<close> target. The upper bound \<open>None\<close> stands for \<open>INFINITY\<close>.
\<close>

definition PARSENUM_double ::
  "(string \<Rightarrow> real option) \<Rightarrow> string \<Rightarrow> real \<Rightarrow> real option \<Rightarrow> real option" where
  "PARSENUM_double conv s lo hi =
     (case conv s of
        None \<Rightarrow> None
      | Some v \<Rightarrow>
          if v < lo then None
          else (case hi of
                  None \<Rightarrow> Some v
                | Some h \<Rightarrow> if h < v then None else Some v))"

subsection \<open>parse_passphrase_arg\<close>

text \<open>
  \<open>strchr(arg, ':')\<close> followed by \<open>&p[1]\<close>: the text after the first colon, if there is one.
\<close>

definition after_colon :: "string \<Rightarrow> string option" where
  "after_colon arg =
     (case dropWhile (\<lambda>c. c \<noteq> CHR '':'') arg of
        [] \<Rightarrow> None
      | _ # rest \<Rightarrow> Some rest)"

text \<open>\<open>strncmp(s, lit, strlen(lit)) == 0\<close> for a literal \<open>lit\<close>.\<close>

definition strncmp_eq :: "string \<Rightarrow> string \<Rightarrow> bool" where
  "strncmp_eq s lit = (take (length lit) s = lit)"

text \<open>
  The result of \<open>parse_passphrase_arg\<close>: its return value, what it stored through
  \<open>passphrase_entry_p\<close> and \<open>passphrase_arg_p\<close> (\<open>None\<close>: nothing was stored), and the
  warning it printed.
\<close>

record parse_result =
  ret :: int
  entry_out :: "passphrase_entry option"
  arg_out :: "string option"
  warned :: "event list"

text \<open>
  The function reads the global \<open>optarg\<close> of the option parser in its \<open>env:\<close> and \<open>file:\<close>
  tests, and its parameter \<open>arg\<close> everywhere else; the global is the first argument here.
\<close>

definition parse_passphrase_arg :: "string \<Rightarrow> string \<Rightarrow> parse_result" where
  "parse_passphrase_arg optarg arg =
     (let err1 = [Warn0 (''Invalid option: --passphrase '' @ arg)] in
      case after_colon arg of
        None \<Rightarrow> \<lparr>ret = -1, entry_out = None, arg_out = None, warned = err1\<rparr>
      | Some a \<Rightarrow>
          (let dev =
             (if strncmp_eq arg ''dev:'' then
                (if a = ''tty-stdin'' then Some PASSPHRASE_TTY_STDIN
                 else if a = ''stdin-once'' then Some PASSPHRASE_STDIN_ONCE
                 else if a = ''tty-once'' then Some PASSPHRASE_TTY_ONCE
                 else None)
              else None)
           in case dev of
                Some e \<Rightarrow> \<lparr>ret = 0, entry_out = Some e, arg_out = Some a, warned = []\<rparr>
              | None \<Rightarrow>
                  if strncmp_eq optarg ''env:'' then
                    \<lparr>ret = 0, entry_out = Some PASSPHRASE_ENV, arg_out = Some a, warned = []\<rparr>
                  else if strncmp_eq optarg ''file:'' then
                    \<lparr>ret = 0, entry_out = Some PASSPHRASE_FILE, arg_out = Some a, warned = []\<rparr>
                  else
                    \<lparr>ret = -1, entry_out = None, arg_out = Some a, warned = err1\<rparr>))"


subsection \<open>The option loop\<close>

definition only_one_passphrase :: "event list" where
  "only_one_passphrase = [Warn0 ''You can only enter one --passphrase or -P argument'']"

text \<open>One iteration of the loop: the body of \<open>GETOPT_SWITCH(ch)\<close>. \<open>Inl\<close> is an exit.\<close>

fun getopt_switch :: "world \<Rightarrow> getopt_result \<Rightarrow> locals \<Rightarrow> outcome + locals" where
  "getopt_switch w (GETOPT_OPT ch) st =
     (if ch = ''-f'' then Inr (st\<lparr>force_resources := True\<rparr>)
      else if ch = ''-v'' then Inr (st\<lparr>verbose := True\<rparr>)
      else if ch = ''-P'' then
        (if passphrase_entry st \<noteq> PASSPHRASE_UNSET then Inl (only_one_passphrase, 1)
         else Inr (st\<lparr>passphrase_entry := PASSPHRASE_STDIN_ONCE\<rparr>))
      else Inl ([Warn0 (''illegal option -- '' @ ch), Usage], 1))"
| "getopt_switch w (GETOPT_OPTARG ch optarg) st =
     (if ch = ''-l'' then
        (case PARSENUM_int (strtoi w) optarg 10 2048 of
           None \<Rightarrow> Inl ([Warnp (''Invalid option: '' @ ch @ '' '' @ optarg)], 1)
         | Some v \<Rightarrow> Inr (st\<lparr>params := (params st)\<lparr>logN := v\<rparr>\<rparr>))
      else if ch = ''-r'' then
        (case PARSENUM_int (strtoi w) optarg 1 128 of
           None \<Rightarrow> Inl ([Warnp (''Invalid option: '' @ ch @ '' '' @ optarg)], 1)
         | Some v \<Rightarrow> Inr (st\<lparr>params := (params st)\<lparr>r := nat v\<rparr>\<rparr>))
      else if ch = ''-p'' then
        (case PARSENUM_int (strtoi w) optarg 1 128 of
           None \<Rightarrow> Inl ([Warnp (''Invalid option: '' @ ch @ '' '' @ optarg)], 1)
         | Some v \<Rightarrow> Inr (st\<lparr>params := (params st)\<lparr>p := nat v\<rparr>\<rparr>))
      else if ch = ''-M'' then
        (case humansize_parse w optarg of
           None \<Rightarrow> Inl ([Warn0 ''Could not parse the parameter to -M.''], 1)
         | Some maxmem64 \<Rightarrow>
             if maxmem64 > SIZE_MAX w then Inl ([Warn0 ''The parameter to -M is too large.''], 1)
             else Inr (st\<lparr>params := (params st)\<lparr>maxmem := maxmem64\<rparr>\<rparr>))
      else if ch = ''-m'' then
        (case PARSENUM_double (strtod w) optarg 0 (Some 1) of
           None \<Rightarrow> Inl ([Warnp (''Invalid option: -m '' @ optarg)], 1)
         | Some v \<Rightarrow> Inr (st\<lparr>params := (params st)\<lparr>maxmemfrac := v\<rparr>\<rparr>))
      else if ch = ''--passphrase'' then
        (if passphrase_entry st \<noteq> PASSPHRASE_UNSET then Inl (only_one_passphrase, 1)
         else
           (let res = parse_passphrase_arg optarg optarg in
            if ret res \<noteq> 0 then Inl (warned res, 1)
            else Inr (st\<lparr>passphrase_entry :=
                            (case entry_out res of None \<Rightarrow> passphrase_entry st | Some e \<Rightarrow> e),
                          passphrase_arg :=
                            (case arg_out res of None \<Rightarrow> passphrase_arg st | Some a \<Rightarrow> Some a)\<rparr>)))
      else if ch = ''-t'' then
        (case PARSENUM_double (strtod w) optarg 0 None of
           None \<Rightarrow> Inl ([Warnp (''Invalid option: -t '' @ optarg)], 1)
         | Some v \<Rightarrow> Inr (st\<lparr>params := (params st)\<lparr>maxtime := v\<rparr>\<rparr>))
      else Inl ([Warn0 (''illegal option -- '' @ ch), Usage], 1))"
| "getopt_switch w (GETOPT_MISSING_ARG ch) st =
     Inl ([Warn0 (''Missing argument to '' @ ch), Usage], 1)"
| "getopt_switch w (GETOPT_DEFAULT ch) st =
     Inl ([Warn0 (''illegal option -- '' @ ch), Usage], 1)"

text \<open>The loop \<open>while ((ch = GETOPT(argc, argv)) != NULL)\<close>.\<close>

fun getopt_loop :: "world \<Rightarrow> getopt_result list \<Rightarrow> locals \<Rightarrow> outcome + locals" where
  "getopt_loop w [] st = Inr st"
| "getopt_loop w (t # ts) st =
     (case getopt_switch w t st of
        Inl out \<Rightarrow> Inl out
      | Inr st' \<Rightarrow> getopt_loop w ts st')"

subsection \<open>After the options\<close>

text \<open>Running a continuation after some actions.\<close>

definition after :: "event list \<Rightarrow> outcome \<Rightarrow> outcome" where
  "after evs out = (evs @ fst out, snd out)"

text \<open>
  The \<open>switch (rc)\<close> at label \<open>done\<close>, entered only when \<open>rc != SCRYPT_OK\<close>.
\<close>

fun rc_message :: "scrypt_rc \<Rightarrow> string option \<Rightarrow> string option \<Rightarrow> event list" where
  "rc_message SCRYPT_OK infilename outfilename = []"
| "rc_message SCRYPT_ELIMIT infilename outfilename =
     [Warnp ''Error determining amount of available memory'']"
| "rc_message SCRYPT_ECLOCK infilename outfilename = [Warnp ''Error reading clocks'']"
| "rc_message SCRYPT_EKEY infilename outfilename = [Warnp ''Error computing derived key'']"
| "rc_message SCRYPT_ESALT infilename outfilename = [Warnp ''Error reading salt'']"
| "rc_message SCRYPT_EOPENSSL infilename outfilename = [Warnp ''OpenSSL error'']"
| "rc_message SCRYPT_ENOMEM infilename outfilename = [Warnp ''Error allocating memory'']"
| "rc_message SCRYPT_EINVAL infilename outfilename =
     [Warn0 ''Input is not valid scrypt-encrypted block'']"
| "rc_message SCRYPT_EVERSION infilename outfilename =
     [Warn0 ''Unrecognized scrypt format version'']"
| "rc_message SCRYPT_ETOOBIG infilename outfilename =
     [Warn0 ''Decrypting file would require too much memory'']"
| "rc_message SCRYPT_ETOOSLOW infilename outfilename =
     [Warn0 ''Decrypting file would take too much CPU time'']"
| "rc_message SCRYPT_EPASS infilename outfilename = [Warn0 ''Passphrase is incorrect'']"
| "rc_message SCRYPT_EWRFILE infilename outfilename =
     [Warnp (''Error writing file: '' @
        (case outfilename of Some f \<Rightarrow> f | None \<Rightarrow> ''standard output''))]"
| "rc_message SCRYPT_ERDFILE infilename outfilename =
     [Warnp (''Error reading file: '' @
        (case infilename of Some f \<Rightarrow> f | None \<Rightarrow> ''standard input''))]"
| "rc_message SCRYPT_EPARAM infilename outfilename =
     [Warn0 ''Error in the manually specified parameters'']"

text \<open>Label \<open>done\<close>: report a failure and leave through \<open>err0\<close>, or return 0.\<close>

definition done_label :: "scrypt_rc \<Rightarrow> string option \<Rightarrow> string option \<Rightarrow> outcome" where
  "done_label rc infilename outfilename =
     (if rc \<noteq> SCRYPT_OK then (rc_message rc infilename outfilename, 1) else ([], 0))"

text \<open>
  \<open>insecure_memzero(buf, len)\<close> on the passphrase buffer: the first \<open>len\<close> bytes become zero.
\<close>

definition insecure_memzero :: "string \<Rightarrow> nat \<Rightarrow> string" where
  "insecure_memzero buf len = replicate (min len (length buf)) (CHR 0x00) @ drop len buf"

text \<open>\<open>insecure_memzero(passwd, strlen(passwd)); free(passwd);\<close>\<close>

definition zero_and_free :: "string \<Rightarrow> event list" where
  "zero_and_free passwd =
     [Insecure_memzero (length passwd), Free_passwd (insecure_memzero passwd (length passwd))]"

text \<open>
  Label \<open>cleanup\<close>. The input stream is \<open>stdin\<close> exactly when \<open>infilename\<close> is NULL;
  \<open>opened_out\<close> says that \<open>outfile\<close> is no longer \<open>stdout\<close>.
\<close>

definition cleanup :: "string \<Rightarrow> string option \<Rightarrow> bool \<Rightarrow> event list" where
  "cleanup passwd infilename opened_out =
     [Scryptdec_file_cookie_free] @ zero_and_free passwd @
     (if infilename \<noteq> None then [Fclose_infile] else []) @
     (if opened_out then [Fclose_outfile] else [])"

text \<open>Labels \<open>err1\<close> and \<open>err2\<close>, each falling through to \<open>exit(1)\<close> at \<open>err0\<close>.\<close>

definition err1 :: "string option \<Rightarrow> outcome" where
  "err1 infilename = ((if infilename \<noteq> None then [Fclose_infile] else []), 1)"

definition err2 :: "string \<Rightarrow> string option \<Rightarrow> outcome" where
  "err2 passwd infilename =
     after ([Scryptdec_file_cookie_free] @ zero_and_free passwd) (err1 infilename)"

text \<open>
  The \<open>switch (passphrase_entry)\<close>: the actions taken and the passphrase buffer obtained
  (\<open>None\<close>: the branch left through \<open>err1\<close>). \<open>passphrase_arg\<close> is written whenever the
  entry method becomes \<open>PASSPHRASE_ENV\<close> or \<open>PASSPHRASE_FILE\<close>, so it is initialised in
  those two branches.
\<close>

definition get_password :: "world \<Rightarrow> locals \<Rightarrow> event list \<times> string option" where
  "get_password w st =
     (case passphrase_entry st of
        PASSPHRASE_TTY_STDIN \<Rightarrow>
          (let confirm = (if dec st then None else Some ''Please confirm passphrase'');
               res = readpass w ''Please enter passphrase'' confirm 1
           in ([Readpass ''Please enter passphrase'' confirm 1 res], res))
      | PASSPHRASE_STDIN_ONCE \<Rightarrow>
          (let res = readpass w ''Please enter passphrase'' None 0
           in ([Readpass ''Please enter passphrase'' None 0 res], res))
      | PASSPHRASE_TTY_ONCE \<Rightarrow>
          (let res = readpass w ''Please enter passphrase'' None 2
           in ([Readpass ''Please enter passphrase'' None 2 res], res))
      | PASSPHRASE_ENV \<Rightarrow>
          (case passphrase_arg st of
             None \<Rightarrow> ([], None)
           | Some name \<Rightarrow>
               (case getenv w name of
                  None \<Rightarrow>
                    ([Getenv name None, Warn0 (''Failed to read from ${'' @ name @ ''}'')], None)
                | Some passwd_env \<Rightarrow>
                    if strdup_ok w then
                      ([Getenv name (Some passwd_env), Strdup passwd_env True], Some passwd_env)
                    else
                      ([Getenv name (Some passwd_env), Strdup passwd_env False,
                        Warnp ''Out of memory''],
                       None)))
      | PASSPHRASE_FILE \<Rightarrow>
          (case passphrase_arg st of
             None \<Rightarrow> ([], None)
           | Some path \<Rightarrow>
               (let res = readpass_file w path in ([Readpass_file path res], res)))
      | PASSPHRASE_UNSET \<Rightarrow>
          ([Warn0 ''Programming error: passphrase_entry is not set''], None))"

text \<open>
  From \<open>if (dec)\<close> before the output file is opened to the end of \<open>main\<close>: header
  processing when decrypting, opening the output file, the copy or the encryption, and
  the clean-up.
\<close>

definition encrypt_or_decrypt ::
  "world \<Rightarrow> locals \<Rightarrow> string option \<Rightarrow> string option \<Rightarrow> string \<Rightarrow> outcome" where
  "encrypt_or_decrypt w st infilename outfilename passwd =
     (let rc =
        (if dec st then scryptdec_file_copy w
         else scryptenc_file w passwd (params st) (verbose st));
          call =
        (if dec st then Scryptdec_file_copy rc
         else Scryptenc_file passwd (params st) (verbose st) rc)
      in after ([call] @ cleanup passwd infilename (outfilename \<noteq> None))
           (done_label rc infilename outfilename))"

definition open_output ::
  "world \<Rightarrow> locals \<Rightarrow> string option \<Rightarrow> string option \<Rightarrow> string \<Rightarrow> outcome" where
  "open_output w st infilename outfilename passwd =
     (case outfilename of
        None \<Rightarrow> encrypt_or_decrypt w st infilename outfilename passwd
      | Some f \<Rightarrow>
          if fopen_wb w f then
            after [Fopen_wb f True] (encrypt_or_decrypt w st infilename outfilename passwd)
          else
            after [Fopen_wb f False, Warnp (''Cannot open output file: '' @ f)]
              (err2 passwd infilename))"

definition with_password ::
  "world \<Rightarrow> locals \<Rightarrow> string option \<Rightarrow> string option \<Rightarrow> string \<Rightarrow> outcome" where
  "with_password w st infilename outfilename passwd =
     (if dec st then
        (let rc = scryptdec_file_prep w passwd (params st) (verbose st) (force_resources st);
             call = Scryptdec_file_prep passwd (params st) (verbose st) (force_resources st) rc
         in if rc \<noteq> SCRYPT_OK then
              after ([call] @ cleanup passwd infilename False)
                (done_label rc infilename outfilename)
            else after [call] (open_output w st infilename outfilename passwd))
      else open_output w st infilename outfilename passwd)"

text \<open>From \<open>if (info)\<close> on, with the input stream open.\<close>

definition with_input :: "world \<Rightarrow> locals \<Rightarrow> string option \<Rightarrow> string option \<Rightarrow> outcome" where
  "with_input w st infilename outfilename =
     (if info st then
        (let rc = scryptdec_file_printparams w
         in after ([Scryptdec_file_printparams rc] @
                   (if infilename \<noteq> None then [Fclose_infile] else []))
              (done_label rc infilename outfilename))
      else
        (case get_password w st of
           (evs, None) \<Rightarrow> after evs (err1 infilename)
         | (evs, Some passwd) \<Rightarrow>
             after evs (with_password w st infilename outfilename passwd)))"

text \<open>
  From \<open>argc -= optind\<close> on: \<open>argv\<close> holds the operands left by the option loop.
\<close>

definition after_getopt :: "world \<Rightarrow> locals \<Rightarrow> string list \<Rightarrow> outcome" where
  "after_getopt w st0 argv =
     (if length argv < 1 \<or> length argv > 2 then ([Usage], 1)
      else
        (let infilename = (if argv ! 0 \<noteq> ''-'' then Some (argv ! 0) else None);
             outfilename = (if length argv > 1 then Some (argv ! 1) else None);
             st = (if passphrase_entry st0 = PASSPHRASE_UNSET
                   then st0\<lparr>passphrase_entry := PASSPHRASE_TTY_STDIN\<rparr> else st0)
         in case infilename of
              Some f \<Rightarrow>
                if fopen_rb w f then
                  after [Fopen_rb f True] (with_input w st infilename outfilename)
                else ([Fopen_rb f False, Warnp (''Cannot open input file: '' @ f)], 1)
            | None \<Rightarrow>
                if passphrase_entry st = PASSPHRASE_STDIN_ONCE then
                  ([Warn0 ''Cannot read both passphrase and input file from standard input''], 1)
                else with_input w st infilename outfilename))"

subsection \<open>main\<close>

text \<open>The local variables as \<open>main\<close> declares them.\<close>

definition params_init :: scryptenc_params where
  "params_init = \<lparr>maxmem = 0, maxmemfrac = 0.5, maxtime = 300.0, logN = 0, r = 0, p = 0\<rparr>"

definition locals_init :: locals where
  "locals_init =
     \<lparr>dec = False, info = False, force_resources = False, params = params_init,
      verbose = False, passphrase_entry = PASSPHRASE_UNSET, passphrase_arg = None\<rparr>"

text \<open>The test of \<open>argv[1]\<close>: "We should have enc, dec, or info first."\<close>

definition subcommand :: "world \<Rightarrow> string \<Rightarrow> locals \<Rightarrow> outcome + locals" where
  "subcommand w cmd st =
     (if cmd = ''enc'' then
        Inr (st\<lparr>params := (params st)\<lparr>maxmem := 0, maxmemfrac := 0.125, maxtime := 5.0\<rparr>\<rparr>)
      else if cmd = ''dec'' then Inr (st\<lparr>dec := True\<rparr>)
      else if cmd = ''info'' then Inr (st\<lparr>info := True\<rparr>)
      else if cmd = ''--version'' then
        Inl ([Stdout (''scrypt '' @ PACKAGE_VERSION w @ [CHR 0x0A])], 0)
      else Inl ([Warn0 ''First argument must be 'enc', 'dec', or 'info'.'', Usage], 1))"

text \<open>
  \<open>main(argc, argv)\<close>, with \<open>argv\<close> the list of its \<open>argc\<close> strings. After
  \<open>argc--; argv++\<close> the option parser works on \<open>tl argv\<close>.
\<close>

definition main :: "world \<Rightarrow> string list \<Rightarrow> outcome" where
  "main w argv =
     (if length argv < 2 then ([Usage], 1)
      else
        (case subcommand w (argv ! 1) locals_init of
           Inl out \<Rightarrow> out
         | Inr st \<Rightarrow>
             (case getopt w (tl argv) of
                (opts, operands) \<Rightarrow>
                  (case getopt_loop w opts st of
                     Inl out \<Rightarrow> out
                   | Inr st' \<Rightarrow> after_getopt w st' operands))))"

section \<open>Properties of runs\<close>

text \<open>Classifications of events and of options, used to state properties of a run.\<close>

fun is_diag :: "event \<Rightarrow> bool" where
  "is_diag (Warn0 m) = True"
| "is_diag (Warnp m) = True"
| "is_diag Usage = True"
| "is_diag e = False"

fun is_prep :: "event \<Rightarrow> bool" where
  "is_prep (Scryptdec_file_prep pw ps v fo rc) = True"
| "is_prep e = False"

fun is_fopen_wb :: "event \<Rightarrow> bool" where
  "is_fopen_wb (Fopen_wb f b) = True"
| "is_fopen_wb e = False"

text \<open>
  A monitor for the order of header processing and output creation when decrypting: no
  output file is opened before \<open>scryptdec_file_prep\<close> was called; the call happens once;
  and after a call that failed no output file is opened at all.
\<close>

fun prep_gate :: "event list \<Rightarrow> bool" where
  "prep_gate [] = True"
| "prep_gate (Scryptdec_file_prep pw ps v fo rc # es) =
     (if rc = SCRYPT_OK then list_all (\<lambda>e. \<not> is_prep e) es
      else list_all (\<lambda>e. \<not> is_prep e \<and> \<not> is_fopen_wb e) es)"
| "prep_gate (Fopen_wb f b # es) = False"
| "prep_gate (e # es) = prep_gate es"

text \<open>
  The events that hand \<open>main\<close> a passphrase buffer it owns, with the passphrase.
\<close>

fun acquires :: "event \<Rightarrow> string option" where
  "acquires (Readpass prompt confirm devtty res) = res"
| "acquires (Strdup s ok) = (if ok then Some s else None)"
| "acquires (Readpass_file path res) = res"
| "acquires e = None"

fun is_free :: "event \<Rightarrow> bool" where
  "is_free (Free_passwd buf) = True"
| "is_free e = False"

fun is_memzero :: "event \<Rightarrow> bool" where
  "is_memzero (Insecure_memzero n) = True"
| "is_memzero e = False"

text \<open>
  A monitor for the passphrase buffer: \<open>wiped pw es\<close> holds when the first release of the
  buffer in \<open>es\<close> directly follows the clearing of all \<open>length pw\<close> bytes and releases
  a buffer of zero bytes; \<open>wipe_ok\<close> asks this after every acquisition.
\<close>

fun wiped :: "string \<Rightarrow> event list \<Rightarrow> bool" where
  "wiped pw [] = False"
| "wiped pw (Free_passwd buf # es) = False"
| "wiped pw (Insecure_memzero n # Free_passwd buf # es) =
     (n = length pw \<and> buf = replicate (length pw) (CHR 0x00))"
| "wiped pw (e # es) = wiped pw es"

fun wipe_ok :: "event list \<Rightarrow> bool" where
  "wipe_ok [] = True"
| "wipe_ok (e # es) =
     ((case acquires e of None \<Rightarrow> True | Some pw \<Rightarrow> wiped pw es) \<and> wipe_ok es)"

fun is_passphrase_option :: "getopt_result \<Rightarrow> bool" where
  "is_passphrase_option (GETOPT_OPT ch) = (ch = ''-P'')"
| "is_passphrase_option (GETOPT_OPTARG ch optarg) = (ch = ''--passphrase'')"
| "is_passphrase_option t = False"

fun is_budget_option :: "getopt_result \<Rightarrow> bool" where
  "is_budget_option (GETOPT_OPTARG ch optarg) = (ch = ''-M'' \<or> ch = ''-m'' \<or> ch = ''-t'')"
| "is_budget_option t = False"


text \<open>The parameters that a call hands to the library, for the calls that take any.\<close>

fun passes_params :: "event \<Rightarrow> scryptenc_params option" where
  "passes_params (Scryptenc_file pw ps v rc) = Some ps"
| "passes_params (Scryptdec_file_prep pw ps v fo rc) = Some ps"
| "passes_params e = None"

text \<open>The warnings of a run, and the return code of a call into the scrypt library.\<close>

fun is_warning :: "event \<Rightarrow> bool" where
  "is_warning (Warn0 m) = True"
| "is_warning (Warnp m) = True"
| "is_warning e = False"

fun library_rc :: "event \<Rightarrow> scrypt_rc option" where
  "library_rc (Scryptdec_file_printparams rc) = Some rc"
| "library_rc (Scryptdec_file_prep pw ps v fo rc) = Some rc"
| "library_rc (Scryptdec_file_copy rc) = Some rc"
| "library_rc (Scryptenc_file pw ps v rc) = Some rc"
| "library_rc e = None"

section \<open>An example environment\<close>

text \<open>
  A concrete environment on which the model can be run: options are separate words,
  numbers are decimal, every file can be opened, the passphrase typed is \<open>hunter2\<close> and
  the library succeeds. Variations are record updates of it.
\<close>

text \<open>The value of a decimal digit: its position in the string of the ten digits.\<close>

definition digit :: "char \<Rightarrow> nat option" where
  "digit c =
     (if c \<in> set ''0123456789''
      then Some (length (takeWhile (\<lambda>d. d \<noteq> c) ''0123456789''))
      else None)"

fun digits :: "string \<Rightarrow> nat \<Rightarrow> nat option" where
  "digits [] acc = Some acc"
| "digits (c # cs) acc =
     (case digit c of None \<Rightarrow> None | Some d \<Rightarrow> digits cs (10 * acc + d))"

definition decimal_int :: "string \<Rightarrow> int option" where
  "decimal_int s =
     (case s of
        [] \<Rightarrow> None
      | c # cs \<Rightarrow>
          if c = CHR ''-'' then
            (if cs = [] then None else map_option (\<lambda>n. - int n) (digits cs 0))
          else map_option int (digits s 0))"

definition decimal_real :: "string \<Rightarrow> real option" where
  "decimal_real s =
     (let whole = takeWhile (\<lambda>c. c \<noteq> CHR ''.'') s;
          frac = drop 1 (dropWhile (\<lambda>c. c \<noteq> CHR ''.'') s)
      in case (decimal_int whole, digits frac 0) of
           (Some a, Some b) \<Rightarrow>
             Some (if a < 0 \<or> take 1 s = ''-'' then real_of_int a - real b / 10 ^ length frac
                   else real_of_int a + real b / 10 ^ length frac)
         | _ \<Rightarrow> None)"

fun lex_args :: "string list \<Rightarrow> getopt_result list \<times> string list" where
  "lex_args [] = ([], [])"
| "lex_args [a] =
     (if a \<in> set [''-f'', ''-v'', ''-P''] then ([GETOPT_OPT a], [])
      else if a \<in> set [''-l'', ''-r'', ''-p'', ''-M'', ''-m'', ''-t'', ''--passphrase'']
      then ([GETOPT_MISSING_ARG a], [])
      else ([], [a]))"
| "lex_args (a # b # rest) =
     (if a \<in> set [''-f'', ''-v'', ''-P''] then
        (case lex_args (b # rest) of (ts, ops) \<Rightarrow> (GETOPT_OPT a # ts, ops))
      else if a \<in> set [''-l'', ''-r'', ''-p'', ''-M'', ''-m'', ''-t'', ''--passphrase'']
      then (case lex_args rest of (ts, ops) \<Rightarrow> (GETOPT_OPTARG a b # ts, ops))
      else ([], a # b # rest))"

definition example_world :: world where
  "example_world =
     \<lparr>getopt = (\<lambda>argv. lex_args (tl argv)),
      strtoi = decimal_int,
      strtod = decimal_real,
      humansize_parse = (\<lambda>s. digits s 0),
      SIZE_MAX = 2 ^ 64 - 1,
      PACKAGE_VERSION = ''1.3.1'',
      fopen_rb = (\<lambda>f. True),
      fopen_wb = (\<lambda>f. True),
      scryptdec_file_printparams = SCRYPT_OK,
      readpass = (\<lambda>prompt confirm devtty. Some ''hunter2''),
      getenv = (\<lambda>name. None),
      strdup_ok = True,
      readpass_file = (\<lambda>path. None),
      scryptdec_file_prep = (\<lambda>passwd ps v fo. SCRYPT_OK),
      scryptdec_file_copy = SCRYPT_OK,
      scryptenc_file = (\<lambda>passwd ps v. SCRYPT_OK)\<rparr>"

section \<open>The structure of a run\<close>

text \<open>
  Once the subcommand is accepted, a run is the option loop followed by the rest of
  \<open>main\<close>; the loop over a concatenation is the loop over its parts.
\<close>

lemma main_run:
  assumes "2 \<le> length argv" "subcommand w (argv ! 1) locals_init = Inr st0"
    "getopt w (tl argv) = (opts, operands)"
  shows "main w argv =
    (case getopt_loop w opts st0 of Inl out \<Rightarrow> out | Inr st \<Rightarrow> after_getopt w st operands)"
  using assms by (simp add: main_def)

lemma getopt_loop_append:
  "getopt_loop w (xs @ ys) st =
     (case getopt_loop w xs st of Inl out \<Rightarrow> Inl out | Inr st' \<Rightarrow> getopt_loop w ys st')"
  by (induction xs arbitrary: st) (auto split: sum.splits)

text \<open>Every exit taken inside the option loop has code 1 and prints diagnostics only.\<close>

lemma getopt_switch_exit:
  "getopt_switch w t st = Inl (tr, c) \<Longrightarrow> c = 1 \<and> (\<forall>e\<in>set tr. is_diag e)"
  by (cases t) (auto simp: only_one_passphrase_def parse_passphrase_arg_def Let_def split: if_splits option.splits)

lemma getopt_loop_exit:
  "getopt_loop w ts st = Inl (tr, c) \<Longrightarrow> c = 1 \<and> (\<forall>e\<in>set tr. is_diag e)"
proof (induction ts arbitrary: st)
  case Nil
  then show ?case by simp
next
  case (Cons t ts)
  then show ?case
    by (cases "getopt_switch w t st") (auto dest: getopt_switch_exit)
qed

text \<open>The option loop never changes the mode chosen by the subcommand.\<close>

lemma getopt_switch_mode:
  "getopt_switch w t st = Inr st' \<Longrightarrow> dec st' = dec st \<and> info st' = info st"
  by (cases t) (auto simp: Let_def split: if_splits option.splits)

lemma getopt_loop_mode:
  "getopt_loop w ts st = Inr st' \<Longrightarrow> dec st' = dec st \<and> info st' = info st"
proof (induction ts arbitrary: st)
  case Nil
  then show ?case by simp
next
  case (Cons t ts)
  then show ?case
    by (cases "getopt_switch w t st") (auto dest: getopt_switch_mode)
qed

subsection \<open>The passphrase entry method during the option loop\<close>

lemma parse_passphrase_arg_set:
  "ret (parse_passphrase_arg oa a) = 0 \<Longrightarrow>
   \<exists>e. entry_out (parse_passphrase_arg oa a) = Some e \<and> e \<noteq> PASSPHRASE_UNSET"
  by (auto simp: parse_passphrase_arg_def Let_def split: option.splits if_splits)

lemma getopt_switch_entry_kept:
  "getopt_switch w t st = Inr st' \<Longrightarrow> passphrase_entry st \<noteq> PASSPHRASE_UNSET \<Longrightarrow>
   passphrase_entry st' = passphrase_entry st \<and> \<not> is_passphrase_option t"
  by (cases t) (auto simp: Let_def split: if_splits option.splits)

lemma getopt_loop_entry_kept:
  "getopt_loop w ts st = Inr st' \<Longrightarrow> passphrase_entry st \<noteq> PASSPHRASE_UNSET \<Longrightarrow>
   passphrase_entry st' = passphrase_entry st \<and> (\<forall>t\<in>set ts. \<not> is_passphrase_option t)"
proof (induction ts arbitrary: st)
  case Nil
  then show ?case by simp
next
  case (Cons t ts)
  then obtain s1 where s: "getopt_switch w t st = Inr s1" "getopt_loop w ts s1 = Inr st'"
    by (cases "getopt_switch w t st") auto
  from getopt_switch_entry_kept [OF s(1) Cons.prems(2)] Cons.IH [OF s(2)] Cons.prems(2)
  show ?case by auto
qed

lemma getopt_switch_entry_set:
  "getopt_switch w t st = Inr st' \<Longrightarrow> is_passphrase_option t \<Longrightarrow>
   passphrase_entry st = PASSPHRASE_UNSET \<and> passphrase_entry st' \<noteq> PASSPHRASE_UNSET"
proof (cases t)
  case (GETOPT_OPTARG ch oa)
  assume "getopt_switch w t st = Inr st'" "is_passphrase_option t"
  then show ?thesis using GETOPT_OPTARG parse_passphrase_arg_set [of oa oa]
    by (auto simp: Let_def split: if_splits option.splits)
qed (auto split: if_splits)

lemma getopt_switch_entry_other:
  "getopt_switch w t st = Inr st' \<Longrightarrow> \<not> is_passphrase_option t \<Longrightarrow>
   passphrase_entry st' = passphrase_entry st"
  by (cases t) (auto simp: Let_def split: if_splits option.splits)

lemma getopt_loop_entry_other:
  "getopt_loop w ts st = Inr st' \<Longrightarrow> \<forall>t\<in>set ts. \<not> is_passphrase_option t \<Longrightarrow>
   passphrase_entry st' = passphrase_entry st"
proof (induction ts arbitrary: st)
  case Nil
  then show ?case by simp
next
  case (Cons t ts)
  then obtain s1 where s: "getopt_switch w t st = Inr s1" "getopt_loop w ts s1 = Inr st'"
    by (cases "getopt_switch w t st") auto
  from getopt_switch_entry_other [OF s(1)] Cons.IH [OF s(2)] Cons.prems(2)
  show ?case by auto
qed

lemma getopt_loop_split:
  "getopt_loop w (xs @ t # ys) st = Inr st' \<Longrightarrow>
   \<exists>s1 s2. getopt_loop w xs st = Inr s1 \<and> getopt_switch w t s1 = Inr s2 \<and>
           getopt_loop w ys s2 = Inr st'"
  by (auto simp: getopt_loop_append split: sum.splits)

lemma getopt_loop_one_passphrase_option:
  assumes "getopt_loop w ts st = Inr st'"
  shows "length (filter is_passphrase_option ts) \<le> 1"
proof (rule ccontr)
  assume "\<not> length (filter is_passphrase_option ts) \<le> 1"
  then obtain a b fs where f: "filter is_passphrase_option ts = a # b # fs"
    by (cases "filter is_passphrase_option ts"; cases "tl (filter is_passphrase_option ts)") auto
  then obtain xs ys where x: "ts = xs @ a # ys" "is_passphrase_option a"
    "b # fs = filter is_passphrase_option ys"
    unfolding filter_eq_Cons_iff by blast
  then obtain s1 s2 where s: "getopt_loop w xs st = Inr s1" "getopt_switch w a s1 = Inr s2"
    "getopt_loop w ys s2 = Inr st'"
    using assms getopt_loop_split by blast
  have "passphrase_entry s2 \<noteq> PASSPHRASE_UNSET"
    using getopt_switch_entry_set [OF s(2) x(2)] by simp
  then have "\<forall>t\<in>set ys. \<not> is_passphrase_option t"
    using getopt_loop_entry_kept [OF s(3)] by simp
  then have "filter is_passphrase_option ys = []" by (simp add: filter_empty_conv)
  then show False using x(3) by simp
qed


lemma getopt_loop_stdin_once:
  assumes "getopt_loop w ts st = Inr st'"
    and "GETOPT_OPT ''-P'' \<in> set ts \<or> GETOPT_OPTARG ''--passphrase'' ''dev:stdin-once'' \<in> set ts"
  shows "passphrase_entry st' = PASSPHRASE_STDIN_ONCE"
proof -
  from assms(2) obtain t where t: "t \<in> set ts"
    "t = GETOPT_OPT ''-P'' \<or> t = GETOPT_OPTARG ''--passphrase'' ''dev:stdin-once''"
    by blast
  then obtain xs ys where x: "ts = xs @ t # ys" by (auto dest: split_list)
  then obtain s1 s2 where s: "getopt_loop w xs st = Inr s1" "getopt_switch w t s1 = Inr s2"
    "getopt_loop w ys s2 = Inr st'"
    using assms(1) getopt_loop_split by blast
  have "passphrase_entry s2 = PASSPHRASE_STDIN_ONCE"
    using s(2) t(2)
    by (auto simp: Let_def parse_passphrase_arg_def after_colon_def strncmp_eq_def
        split: if_splits)
  then show ?thesis using getopt_loop_entry_kept [OF s(3)] by simp
qed

subsection \<open>Header processing comes before the output file\<close>

lemma is_diag_quiet: "is_diag e \<Longrightarrow> \<not> is_prep e \<and> \<not> is_fopen_wb e"
  by (cases e) auto

lemma rc_message_diag: "e \<in> set (rc_message rc ifn ofn) \<Longrightarrow> is_diag e"
  by (cases rc) auto

lemma prep_gate_quiet:
  "list_all (\<lambda>e. \<not> is_prep e \<and> \<not> is_fopen_wb e) xs \<Longrightarrow> prep_gate (xs @ ys) = prep_gate ys"
proof (induction xs)
  case Nil
  then show ?case by simp
next
  case (Cons x xs)
  then show ?case by (cases x) auto
qed

lemma prep_gate_quiet_all:
  "list_all (\<lambda>e. \<not> is_prep e \<and> \<not> is_fopen_wb e) xs \<Longrightarrow> prep_gate xs"
  using prep_gate_quiet [of xs "[]"] by simp

lemma get_password_quiet:
  "get_password w st = (evs, res) \<Longrightarrow> list_all (\<lambda>e. \<not> is_prep e \<and> \<not> is_fopen_wb e) evs"
  by (auto simp: get_password_def Let_def split: passphrase_entry.splits option.splits if_splits)

lemma done_label_quiet:
  "list_all (\<lambda>e. \<not> is_prep e \<and> \<not> is_fopen_wb e) (fst (done_label rc ifn ofn))"
  by (auto simp: done_label_def list_all_iff dest!: rc_message_diag is_diag_quiet)

lemma encrypt_or_decrypt_quiet:
  "list_all (\<lambda>e. \<not> is_prep e \<and> \<not> is_fopen_wb e) (fst (encrypt_or_decrypt w st ifn ofn pw))"
  using done_label_quiet [of _ ifn ofn]
  by (simp add: encrypt_or_decrypt_def Let_def after_def cleanup_def zero_and_free_def)

lemma open_output_no_prep:
  "list_all (\<lambda>e. \<not> is_prep e) (fst (open_output w st ifn ofn pw))"
  using encrypt_or_decrypt_quiet [of w st ifn ofn pw]
  by (auto simp: open_output_def after_def err2_def err1_def zero_and_free_def list_all_iff
      split: option.splits)

lemma with_password_gate:
  "dec st \<Longrightarrow> prep_gate (fst (with_password w st ifn ofn pw))"
  using open_output_no_prep [of w st ifn ofn pw] done_label_quiet [of _ ifn ofn]
  by (simp add: with_password_def Let_def after_def cleanup_def zero_and_free_def)

lemma with_input_gate:
  "dec st \<Longrightarrow> prep_gate (fst (with_input w st ifn ofn))"
proof (cases "info st")
  case True
  then show ?thesis
    using done_label_quiet [of "scryptdec_file_printparams w" ifn ofn]
    by (auto simp: with_input_def Let_def after_def intro!: prep_gate_quiet_all)
next
  case False
  assume d: "dec st"
  obtain evs res where g: "get_password w st = (evs, res)" by (cases "get_password w st")
  show ?thesis
  proof (cases res)
    case None
    then show ?thesis using False g get_password_quiet [OF g]
      by (auto simp: with_input_def after_def err1_def intro!: prep_gate_quiet_all)
  next
    case (Some pw)
    then show ?thesis using False g get_password_quiet [OF g] with_password_gate [OF d]
      by (simp add: with_input_def after_def prep_gate_quiet)
  qed
qed

lemma after_getopt_gate:
  "dec st \<Longrightarrow> prep_gate (fst (after_getopt w st operands))"
  using with_input_gate [of "st" w] with_input_gate [of "st\<lparr>passphrase_entry := PASSPHRASE_TTY_STDIN\<rparr>" w]
  by (auto simp: after_getopt_def Let_def after_def)

lemma prep_gate_fopen:
  "prep_gate (pre @ Fopen_wb f b # post) \<Longrightarrow>
   \<exists>pw ps v fo. Scryptdec_file_prep pw ps v fo SCRYPT_OK \<in> set pre"
proof (induction pre)
  case Nil
  then show ?case by simp
next
  case (Cons x pre)
  then show ?case by (cases x) (auto split: if_splits)
qed

lemma prep_gate_failed:
  "prep_gate tr \<Longrightarrow> Scryptdec_file_prep pw ps v fo rc \<in> set tr \<Longrightarrow> rc \<noteq> SCRYPT_OK \<Longrightarrow>
   Fopen_wb f b \<notin> set tr"
proof (induction tr rule: prep_gate.induct)
  case 1
  then show ?case by simp
next
  case (2 pw' ps' v' fo' rc' es)
  then show ?case by (auto simp: list_all_iff split: if_splits)
qed auto

lemma diag_gate: "\<forall>e\<in>set tr. is_diag e \<Longrightarrow> prep_gate tr"
  by (rule prep_gate_quiet_all) (auto simp: list_all_iff dest: is_diag_quiet)

lemma main_dec_gate:
  assumes "2 \<le> length argv" "argv ! 1 = ''dec''"
  shows "prep_gate (fst (main w argv))"
proof -
  have s: "subcommand w (argv ! 1) locals_init = Inr (locals_init\<lparr>dec := True\<rparr>)"
    using assms by (simp add: subcommand_def)
  obtain opts operands where g: "getopt w (tl argv) = (opts, operands)"
    by (cases "getopt w (tl argv)")
  note m = main_run [OF assms(1) s g]
  show ?thesis
  proof (cases "getopt_loop w opts (locals_init\<lparr>dec := True\<rparr>)")
    case (Inl out)
    then show ?thesis using m getopt_loop_exit [of w opts _ "fst out" "snd out"]
      by (simp add: diag_gate)
  next
    case (Inr st)
    then have "dec st" using getopt_loop_mode [OF Inr] by simp
    then show ?thesis using m Inr by (simp add: after_getopt_gate)
  qed
qed

subsection \<open>The passphrase buffer is cleared before it is released\<close>

lemma wiped_Cons:
  "wiped pw (e # es) \<Longrightarrow>
   (\<exists>rest. e = Insecure_memzero (length pw) \<and>
      es = Free_passwd (replicate (length pw) (CHR 0x00)) # rest) \<or>
   (\<not> is_free e \<and> wiped pw es)"
  by (cases "(pw, e # es)" rule: wiped.cases) auto

lemma wiped_explicit:
  "wiped pw es \<Longrightarrow>
   \<exists>mid rest. es = mid @ Insecure_memzero (length pw) #
                  Free_passwd (replicate (length pw) (CHR 0x00)) # rest \<and>
              (\<forall>x\<in>set mid. \<not> is_free x)"
proof (induction es)
  case Nil
  then show ?case by simp
next
  case (Cons e es)
  from wiped_Cons [OF Cons.prems] show ?case
  proof
    assume "\<exists>rest. e = Insecure_memzero (length pw) \<and>
      es = Free_passwd (replicate (length pw) (CHR 0x00)) # rest"
    then obtain rest where "e # es = [] @ Insecure_memzero (length pw) #
      Free_passwd (replicate (length pw) (CHR 0x00)) # rest" by auto
    then show ?thesis by (intro exI [of _ "[]"] exI [of _ rest]) simp
  next
    assume a: "\<not> is_free e \<and> wiped pw es"
    then obtain mid rest where m: "es = mid @ Insecure_memzero (length pw) #
        Free_passwd (replicate (length pw) (CHR 0x00)) # rest" "\<forall>x\<in>set mid. \<not> is_free x"
      using Cons.IH by blast
    show ?thesis using a m by (intro exI [of _ "e # mid"] exI [of _ rest]) simp
  qed
qed

lemma wipe_ok_explicit:
  "wipe_ok (pre @ e # post) \<Longrightarrow> acquires e = Some pw \<Longrightarrow> wiped pw post"
  by (induction pre) auto

lemma wipe_ok_quiet:
  "list_all (\<lambda>e. acquires e = None) xs \<Longrightarrow> wipe_ok (xs @ ys) = wipe_ok ys"
  by (induction xs) auto

lemma wiped_skip:
  "list_all (\<lambda>e. \<not> is_free e \<and> \<not> is_memzero e) xs \<Longrightarrow> wiped pw (xs @ ys) = wiped pw ys"
proof (induction xs)
  case Nil
  then show ?case by simp
next
  case (Cons x xs)
  then show ?case by (cases x) auto
qed

lemma insecure_memzero_all:
  "insecure_memzero buf (length buf) = replicate (length buf) (CHR 0x00)"
  by (simp add: insecure_memzero_def)

lemma is_diag_silent: "is_diag e \<Longrightarrow> acquires e = None \<and> \<not> is_free e \<and> \<not> is_memzero e"
  by (cases e) auto

lemma done_label_silent:
  "list_all (\<lambda>e. acquires e = None) (fst (done_label rc ifn ofn))"
  by (auto simp: done_label_def list_all_iff dest!: rc_message_diag is_diag_silent)

lemma with_password_wiped:
  "wiped pw (fst (with_password w st ifn ofn pw))"
  by (simp add: with_password_def open_output_def encrypt_or_decrypt_def Let_def after_def
      cleanup_def err2_def err1_def zero_and_free_def insecure_memzero_all split: option.splits)

lemma with_password_silent:
  "list_all (\<lambda>e. acquires e = None) (fst (with_password w st ifn ofn pw))"
  by (simp add: with_password_def open_output_def encrypt_or_decrypt_def Let_def after_def
      cleanup_def err2_def err1_def zero_and_free_def done_label_silent split: option.splits)

lemma silent_wipe_ok: "list_all (\<lambda>e. acquires e = None) xs \<Longrightarrow> wipe_ok xs"
  using wipe_ok_quiet [of xs "[]"] by simp

lemma get_password_acquires:
  "get_password w st = (evs, Some pw) \<Longrightarrow>
   \<exists>pre e. evs = pre @ [e] \<and> acquires e = Some pw \<and> list_all (\<lambda>e. acquires e = None) pre"
  by (auto simp: get_password_def Let_def split: passphrase_entry.splits option.splits if_splits)

lemma get_password_fails:
  "get_password w st = (evs, None) \<Longrightarrow> list_all (\<lambda>e. acquires e = None) evs"
  by (auto simp: get_password_def Let_def split: passphrase_entry.splits option.splits if_splits)

lemma with_input_wipe_ok: "wipe_ok (fst (with_input w st ifn ofn))"
proof (cases "info st")
  case True
  then show ?thesis
    using done_label_silent [of "scryptdec_file_printparams w" ifn ofn]
    by (auto simp: with_input_def Let_def after_def intro!: silent_wipe_ok)
next
  case False
  obtain evs res where g: "get_password w st = (evs, res)" by (cases "get_password w st")
  show ?thesis
  proof (cases res)
    case None
    then show ?thesis using False g get_password_fails [of w st evs]
      by (auto simp: with_input_def after_def err1_def intro!: silent_wipe_ok)
  next
    case (Some pw)
    then obtain pre e where e: "evs = pre @ [e]" "acquires e = Some pw"
      "list_all (\<lambda>e. acquires e = None) pre"
      using g get_password_acquires by blast
    then show ?thesis
      using False g Some with_password_wiped [of pw w st ifn ofn]
        with_password_silent [of w st ifn ofn pw]
      by (simp add: with_input_def after_def wipe_ok_quiet silent_wipe_ok)
  qed
qed

lemma after_getopt_wipe_ok: "wipe_ok (fst (after_getopt w st operands))"
  by (auto simp: after_getopt_def Let_def after_def with_input_wipe_ok)

lemma main_wipe_ok: "wipe_ok (fst (main w argv))"
proof -
  have d: "wipe_ok tr" if "\<forall>e\<in>set tr. is_diag e" for tr
    using that by (intro silent_wipe_ok) (auto simp: list_all_iff dest: is_diag_silent)
  show ?thesis
  proof (cases "length argv < 2")
    case True
    then show ?thesis by (simp add: main_def)
  next
    case False
    show ?thesis
    proof (cases "subcommand w (argv ! 1) locals_init")
      case (Inl out)
      then show ?thesis using False
        by (auto simp: main_def subcommand_def split: if_splits)
    next
      case (Inr st0)
      obtain opts operands where g: "getopt w (tl argv) = (opts, operands)"
        by (cases "getopt w (tl argv)")
      have m: "main w argv =
        (case getopt_loop w opts st0 of Inl out \<Rightarrow> out | Inr st \<Rightarrow> after_getopt w st operands)"
        using False Inr g by (intro main_run) auto
      show ?thesis
      proof (cases "getopt_loop w opts st0")
        case (Inl out)
        then show ?thesis using m getopt_loop_exit [of w opts st0 "fst out" "snd out"]
          by (simp add: d)
      next
        case (Inr st)
        then show ?thesis using m by (simp add: after_getopt_wipe_ok)
      qed
    qed
  qed
qed

subsection \<open>What reaches the library\<close>

lemma subcommand_entry:
  "subcommand w cmd locals_init = Inr st0 \<Longrightarrow> passphrase_entry st0 = PASSPHRASE_UNSET"
  by (auto simp: subcommand_def locals_init_def split: if_splits)

lemma subcommand_mode:
  "subcommand w cmd locals_init = Inr st0 \<Longrightarrow>
   (cmd = ''enc'' \<or> cmd = ''dec'' \<or> cmd = ''info'') \<and>
   dec st0 = (cmd = ''dec'') \<and> info st0 = (cmd = ''info'')"
  by (auto simp: subcommand_def locals_init_def split: if_splits)

lemma getopt_switch_budget:
  "getopt_switch w t st = Inr st' \<Longrightarrow> \<not> is_budget_option t \<Longrightarrow>
   maxmem (params st') = maxmem (params st) \<and>
   maxmemfrac (params st') = maxmemfrac (params st) \<and>
   maxtime (params st') = maxtime (params st)"
  by (cases t) (auto simp: Let_def split: if_splits option.splits)

lemma getopt_loop_budget:
  "getopt_loop w ts st = Inr st' \<Longrightarrow> \<forall>t\<in>set ts. \<not> is_budget_option t \<Longrightarrow>
   maxmem (params st') = maxmem (params st) \<and>
   maxmemfrac (params st') = maxmemfrac (params st) \<and>
   maxtime (params st') = maxtime (params st)"
proof (induction ts arbitrary: st)
  case Nil
  then show ?case by simp
next
  case (Cons t ts)
  then obtain s1 where s: "getopt_switch w t st = Inr s1" "getopt_loop w ts s1 = Inr st'"
    by (cases "getopt_switch w t st") auto
  from getopt_switch_budget [OF s(1)] Cons.IH [OF s(2)] Cons.prems(2)
  show ?case by auto
qed

text \<open>The options \<open>-M\<close> and \<open>-t\<close> replace the corresponding field of the budget.\<close>

lemma maxmem_option:
  "getopt_switch w (GETOPT_OPTARG ''-M'' s) st =
     (case humansize_parse w s of
        None \<Rightarrow> Inl ([Warn0 ''Could not parse the parameter to -M.''], 1)
      | Some n \<Rightarrow>
          if SIZE_MAX w < n then Inl ([Warn0 ''The parameter to -M is too large.''], 1)
          else Inr (st\<lparr>params := (params st)\<lparr>maxmem := n\<rparr>\<rparr>))"
  by (simp split: option.splits)

lemma maxtime_option:
  "getopt_switch w (GETOPT_OPTARG ''-t'' s) st =
     (case strtod w s of
        None \<Rightarrow> Inl ([Warnp (''Invalid option: -t '' @ s)], 1)
      | Some v \<Rightarrow>
          if 0 \<le> v then Inr (st\<lparr>params := (params st)\<lparr>maxtime := v\<rparr>\<rparr>)
          else Inl ([Warnp (''Invalid option: -t '' @ s)], 1))"
  by (auto simp: PARSENUM_double_def split: option.splits)

lemma rc_message_no_params: "e \<in> set (rc_message rc ifn ofn) \<Longrightarrow> passes_params e = None"
  by (cases rc) auto

lemma get_password_no_params:
  "get_password w st = (evs, res) \<Longrightarrow> e \<in> set evs \<Longrightarrow> passes_params e = None"
  by (auto simp: get_password_def Let_def split: passphrase_entry.splits option.splits if_splits)

lemma with_password_params:
  "e \<in> set (fst (with_password w st ifn ofn pw)) \<Longrightarrow> passes_params e = Some ps \<Longrightarrow>
   ps = params st"
  by (auto simp: with_password_def open_output_def encrypt_or_decrypt_def Let_def after_def
      cleanup_def err2_def err1_def zero_and_free_def done_label_def
      split: option.splits if_splits dest: rc_message_no_params)

lemma with_input_params:
  "e \<in> set (fst (with_input w st ifn ofn)) \<Longrightarrow> passes_params e = Some ps \<Longrightarrow> ps = params st"
  by (auto simp: with_input_def Let_def after_def err1_def done_label_def
      split: option.splits if_splits prod.splits
      dest: rc_message_no_params get_password_no_params with_password_params)

lemma after_getopt_params:
  "e \<in> set (fst (after_getopt w st operands)) \<Longrightarrow> passes_params e = Some ps \<Longrightarrow>
   ps = params st"
  by (auto simp: after_getopt_def Let_def after_def split: if_splits dest: with_input_params)

text \<open>
  Once a passphrase is acquired, the run calls the library with the parameters and flags
  left by the option loop: \<open>scryptdec_file_prep\<close> when decrypting, \<open>scryptenc_file\<close> when
  encrypting and the output is available.
\<close>

lemma with_password_calls_prep:
  "dec st \<Longrightarrow>
   Scryptdec_file_prep pw (params st) (verbose st) (force_resources st)
     (scryptdec_file_prep w pw (params st) (verbose st) (force_resources st))
   \<in> set (fst (with_password w st ifn ofn pw))"
  by (simp add: with_password_def Let_def after_def)

lemma with_password_calls_enc:
  "\<not> dec st \<Longrightarrow> (case ofn of None \<Rightarrow> True | Some f \<Rightarrow> fopen_wb w f) \<Longrightarrow>
   Scryptenc_file pw (params st) (verbose st) (scryptenc_file w pw (params st) (verbose st))
   \<in> set (fst (with_password w st ifn ofn pw))"
  by (simp add: with_password_def open_output_def encrypt_or_decrypt_def Let_def after_def
      split: option.splits)

lemma silent_not_acquiring:
  "list_all (\<lambda>e. acquires e = None) xs \<Longrightarrow> e \<in> set xs \<Longrightarrow> acquires e = Some pw \<Longrightarrow> False"
  by (auto simp: list_all_iff)

lemma with_input_acquired:
  assumes "e \<in> set (fst (with_input w st ifn ofn))" and "acquires e = Some pw"
  shows "set (fst (with_password w st ifn ofn pw)) \<subseteq> set (fst (with_input w st ifn ofn))"
proof (cases "info st")
  case True
  then have "list_all (\<lambda>e. acquires e = None) (fst (with_input w st ifn ofn))"
    by (simp add: with_input_def Let_def after_def done_label_silent)
  then show ?thesis using assms silent_not_acquiring by blast
next
  case False
  obtain evs res where g: "get_password w st = (evs, res)" by (cases "get_password w st")
  show ?thesis
  proof (cases res)
    case None
    then have "list_all (\<lambda>e. acquires e = None) (fst (with_input w st ifn ofn))"
      using False g get_password_fails [of w st evs]
      by (simp add: with_input_def after_def err1_def)
    then show ?thesis using assms silent_not_acquiring by blast
  next
    case (Some pw')
    then obtain pre e' where e: "evs = pre @ [e']" "acquires e' = Some pw'"
      "list_all (\<lambda>e. acquires e = None) pre"
      using g get_password_acquires by blast
    have t: "fst (with_input w st ifn ofn) = evs @ fst (with_password w st ifn ofn pw')"
      using False g Some by (simp add: with_input_def after_def)
    have "e \<in> set pre \<or> e = e' \<or> e \<in> set (fst (with_password w st ifn ofn pw'))"
      using assms(1) e(1) unfolding t by auto
    then have "e = e'"
      using assms(2) e(3) with_password_silent [of w st ifn ofn pw'] silent_not_acquiring
      by blast
    then have "pw' = pw" using assms(2) e(2) by simp
    then show ?thesis unfolding t by auto
  qed
qed

lemma after_getopt_acquired:
  assumes "e \<in> set (fst (after_getopt w st operands))" and "acquires e = Some pw"
  shows "(dec st \<longrightarrow>
            Scryptdec_file_prep pw (params st) (verbose st) (force_resources st)
              (scryptdec_file_prep w pw (params st) (verbose st) (force_resources st))
            \<in> set (fst (after_getopt w st operands))) \<and>
         (\<not> dec st \<and> (length operands < 2 \<or> fopen_wb w (operands ! 1)) \<longrightarrow>
            Scryptenc_file pw (params st) (verbose st)
              (scryptenc_file w pw (params st) (verbose st))
            \<in> set (fst (after_getopt w st operands)))"
proof -
  define st' where "st' = (if passphrase_entry st = PASSPHRASE_UNSET
                   then st\<lparr>passphrase_entry := PASSPHRASE_TTY_STDIN\<rparr> else st)"
  define ifn where "ifn = (if operands ! 0 \<noteq> ''-'' then Some (operands ! 0) else None)"
  define ofn where "ofn = (if length operands > 1 then Some (operands ! 1) else None)"
  have s: "dec st' = dec st" "params st' = params st" "verbose st' = verbose st"
    "force_resources st' = force_resources st"
    by (simp_all add: st'_def)
  have i: "e \<in> set (fst (with_input w st' ifn ofn))"
    "set (fst (with_input w st' ifn ofn)) \<subseteq> set (fst (after_getopt w st operands))"
    using assms
    by (auto simp: after_getopt_def Let_def after_def st'_def ifn_def ofn_def
        split: if_splits)
  from with_input_acquired [OF i(1) assms(2)] i(2)
  have sub: "set (fst (with_password w st' ifn ofn pw)) \<subseteq> set (fst (after_getopt w st operands))"
    by blast
  show ?thesis
  proof (intro conjI impI)
    assume "dec st"
    then show "Scryptdec_file_prep pw (params st) (verbose st) (force_resources st)
              (scryptdec_file_prep w pw (params st) (verbose st) (force_resources st))
            \<in> set (fst (after_getopt w st operands))"
      using with_password_calls_prep [where st = st' and pw = pw and w = w and ifn = ifn and ofn = ofn]
        sub s by auto
  next
    assume a: "\<not> dec st \<and> (length operands < 2 \<or> fopen_wb w (operands ! 1))"
    then have "case ofn of None \<Rightarrow> True | Some f \<Rightarrow> fopen_wb w f"
      by (auto simp: ofn_def)
    then show "Scryptenc_file pw (params st) (verbose st)
              (scryptenc_file w pw (params st) (verbose st))
            \<in> set (fst (after_getopt w st operands))"
      using with_password_calls_enc [where st = st' and pw = pw and w = w and ifn = ifn and ofn = ofn]
        sub s a by auto
  qed
qed

subsection \<open>A failed library call decides the outcome\<close>

lemma rc_message_warnings: "filter is_warning (rc_message rc ifn ofn) = rc_message rc ifn ofn"
  by (cases rc) auto

lemma rc_message_no_library: "e \<in> set (rc_message rc ifn ofn) \<Longrightarrow> library_rc e = None"
  by (cases rc) auto

lemma is_diag_no_library: "is_diag e \<Longrightarrow> library_rc e = None"
  by (cases e) auto

lemma get_password_no_library:
  "get_password w st = (evs, res) \<Longrightarrow> e \<in> set evs \<Longrightarrow> library_rc e = None"
  by (auto simp: get_password_def Let_def split: passphrase_entry.splits option.splits if_splits)

lemma get_password_no_warning:
  "get_password w st = (evs, Some pw) \<Longrightarrow> filter is_warning evs = []"
  by (auto simp: get_password_def Let_def split: passphrase_entry.splits option.splits if_splits)

lemma done_label_failed:
  "rc \<noteq> SCRYPT_OK \<Longrightarrow> done_label rc ifn ofn = (rc_message rc ifn ofn, 1)"
  by (simp add: done_label_def)

lemma encrypt_or_decrypt_failed:
  assumes "e \<in> set (fst (encrypt_or_decrypt w st ifn ofn pw))" "library_rc e = Some rc"
    "rc \<noteq> SCRYPT_OK"
  shows "snd (encrypt_or_decrypt w st ifn ofn pw) = 1 \<and>
         filter is_warning (fst (encrypt_or_decrypt w st ifn ofn pw)) = rc_message rc ifn ofn"
  using assms
  by (auto simp: encrypt_or_decrypt_def Let_def after_def cleanup_def zero_and_free_def
      done_label_def rc_message_warnings dest: rc_message_no_library split: if_splits)

lemma open_output_failed:
  assumes "e \<in> set (fst (open_output w st ifn ofn pw))" "library_rc e = Some rc"
    "rc \<noteq> SCRYPT_OK"
  shows "snd (open_output w st ifn ofn pw) = 1 \<and>
         filter is_warning (fst (open_output w st ifn ofn pw)) = rc_message rc ifn ofn"
  using assms encrypt_or_decrypt_failed [of e w st ifn ofn pw rc]
  by (auto simp: open_output_def after_def err2_def err1_def zero_and_free_def
      split: option.splits if_splits)

lemma with_password_failed:
  assumes "e \<in> set (fst (with_password w st ifn ofn pw))" "library_rc e = Some rc"
    "rc \<noteq> SCRYPT_OK"
  shows "snd (with_password w st ifn ofn pw) = 1 \<and>
         filter is_warning (fst (with_password w st ifn ofn pw)) = rc_message rc ifn ofn"
  using assms open_output_failed [of e w st ifn ofn pw rc]
  by (auto simp: with_password_def Let_def after_def cleanup_def zero_and_free_def
      done_label_def rc_message_warnings dest: rc_message_no_library split: if_splits)

lemma with_input_failed:
  assumes "e \<in> set (fst (with_input w st ifn ofn))" "library_rc e = Some rc"
    "rc \<noteq> SCRYPT_OK"
  shows "snd (with_input w st ifn ofn) = 1 \<and>
         filter is_warning (fst (with_input w st ifn ofn)) = rc_message rc ifn ofn"
proof (cases "info st")
  case True
  then show ?thesis using assms
    by (auto simp: with_input_def Let_def after_def done_label_def rc_message_warnings
        dest: rc_message_no_library split: if_splits)
next
  case False
  obtain evs res where g: "get_password w st = (evs, res)" by (cases "get_password w st")
  show ?thesis
  proof (cases res)
    case None
    then show ?thesis using False g assms get_password_no_library [OF g]
      by (auto simp: with_input_def after_def err1_def split: if_splits)
  next
    case (Some pw)
    then have "e \<in> set (fst (with_password w st ifn ofn pw))"
      using False g assms get_password_no_library [OF g]
      by (auto simp: with_input_def after_def)
    from with_password_failed [OF this assms(2,3)] show ?thesis
      using False g Some get_password_no_warning [of w st evs pw]
      by (simp add: with_input_def after_def)
  qed
qed

lemma after_getopt_failed:
  assumes "e \<in> set (fst (after_getopt w st operands))" "library_rc e = Some rc"
    "rc \<noteq> SCRYPT_OK"
  shows "snd (after_getopt w st operands) = 1 \<and>
         (\<exists>ifn ofn. filter is_warning (fst (after_getopt w st operands)) = rc_message rc ifn ofn)"
  using assms
  by (auto simp: after_getopt_def Let_def after_def split: if_splits
      dest!: with_input_failed)

lemma main_failed:
  assumes "e \<in> set (fst (main w argv))" "library_rc e = Some rc" "rc \<noteq> SCRYPT_OK"
  shows "snd (main w argv) = 1 \<and>
         (\<exists>ifn ofn. filter is_warning (fst (main w argv)) = rc_message rc ifn ofn)"
proof (cases "length argv < 2")
  case True
  then show ?thesis using assms by (simp add: main_def)
next
  case False
  show ?thesis
  proof (cases "subcommand w (argv ! 1) locals_init")
    case (Inl out)
    then show ?thesis using False assms
      by (auto simp: main_def subcommand_def split: if_splits)
  next
    case (Inr st0)
    obtain opts operands where g: "getopt w (tl argv) = (opts, operands)"
      by (cases "getopt w (tl argv)")
    have m: "main w argv =
      (case getopt_loop w opts st0 of Inl out \<Rightarrow> out | Inr st \<Rightarrow> after_getopt w st operands)"
      using False Inr g by (intro main_run) auto
    show ?thesis
    proof (cases "getopt_loop w opts st0")
      case (Inl out)
      then have "\<forall>x\<in>set (fst (main w argv)). is_diag x"
        using m getopt_loop_exit [of w opts st0 "fst out" "snd out"] by simp
      then have "library_rc e = None"
        using assms(1) is_diag_no_library by blast
      then show ?thesis using assms(2) by simp
    next
      case (Inr st)
      then show ?thesis using m assms after_getopt_failed by simp
    qed
  qed
qed

section \<open>Running the model\<close>

text \<open>The equations that evaluate a run on concrete input.\<close>

lemmas run_defs =
  main_def subcommand_def locals_init_def params_init_def after_getopt_def with_input_def
  get_password_def with_password_def open_output_def encrypt_or_decrypt_def cleanup_def
  zero_and_free_def insecure_memzero_def done_label_def after_def err1_def err2_def Let_def
  PARSENUM_int_def PARSENUM_double_def parse_passphrase_arg_def after_colon_def
  strncmp_eq_def only_one_passphrase_def example_world_def decimal_int_def decimal_real_def
  digit_def

lemma run_dec_in_out:
  "main example_world [''scrypt'', ''dec'', ''in'', ''out''] =
     ([Fopen_rb ''in'' True,
       Readpass ''Please enter passphrase'' None 1 (Some ''hunter2''),
       Scryptdec_file_prep ''hunter2''
         \<lparr>maxmem = 0, maxmemfrac = 0.5, maxtime = 300, logN = 0, r = 0, p = 0\<rparr>
         False False SCRYPT_OK,
       Fopen_wb ''out'' True,
       Scryptdec_file_copy SCRYPT_OK,
       Scryptdec_file_cookie_free,
       Insecure_memzero 7,
       Free_passwd [CHR 0x00, CHR 0x00, CHR 0x00, CHR 0x00, CHR 0x00, CHR 0x00, CHR 0x00],
       Fclose_infile,
       Fclose_outfile], 0)"
  by (simp add: run_defs)

lemma run_dec_wrong_passphrase:
  "main (example_world\<lparr>scryptdec_file_prep := (\<lambda>passwd ps v fo. SCRYPT_EPASS)\<rparr>)
      [''scrypt'', ''dec'', ''in'', ''out''] =
     ([Fopen_rb ''in'' True,
       Readpass ''Please enter passphrase'' None 1 (Some ''hunter2''),
       Scryptdec_file_prep ''hunter2''
         \<lparr>maxmem = 0, maxmemfrac = 0.5, maxtime = 300, logN = 0, r = 0, p = 0\<rparr>
         False False SCRYPT_EPASS,
       Scryptdec_file_cookie_free,
       Insecure_memzero 7,
       Free_passwd [CHR 0x00, CHR 0x00, CHR 0x00, CHR 0x00, CHR 0x00, CHR 0x00, CHR 0x00],
       Fclose_infile,
       Warn0 ''Passphrase is incorrect''], 1)"
  by (simp add: run_defs)

lemma run_enc_logN_2:
  "main example_world [''scrypt'', ''enc'', ''-v'', ''-l'', ''2'', ''-r'', ''0'', ''-p'', ''0'',
      ''--passphrase'', ''dev:stdin-once'', ''in'', ''out''] =
     ([Warnp ''Invalid option: -l 2''], 1)"
  by (simp add: run_defs)

section \<open>The claims\<close>

subsection \<open>C1: the output file is opened only after a successful prep\<close>

text \<open>
  Claim C1. When decrypting, every opening of the output file in a run is preceded by a
  call of \<open>scryptdec_file_prep\<close> that returned \<open>SCRYPT_OK\<close>; and a run in which that
  call failed never opens the output file.
\<close>

theorem output_opened_only_after_prep:
  assumes "2 \<le> length argv" and "argv ! 1 = ''dec''"
  shows "(\<forall>pre f b post. fst (main w argv) = pre @ Fopen_wb f b # post \<longrightarrow>
            (\<exists>pw ps v fo. Scryptdec_file_prep pw ps v fo SCRYPT_OK \<in> set pre)) \<and>
         (\<forall>pw ps v fo rc f b.
            Scryptdec_file_prep pw ps v fo rc \<in> set (fst (main w argv)) \<and> rc \<noteq> SCRYPT_OK \<longrightarrow>
            Fopen_wb f b \<notin> set (fst (main w argv)))"
proof -
  have g: "prep_gate (fst (main w argv))"
    using assms by (rule main_dec_gate)
  show ?thesis
  proof (intro conjI allI impI)
    fix pre f b post
    assume "fst (main w argv) = pre @ Fopen_wb f b # post"
    then show "\<exists>pw ps v fo. Scryptdec_file_prep pw ps v fo SCRYPT_OK \<in> set pre"
      using g prep_gate_fopen by metis
  next
    fix pw ps v fo rc f b
    assume "Scryptdec_file_prep pw ps v fo rc \<in> set (fst (main w argv)) \<and> rc \<noteq> SCRYPT_OK"
    then show "Fopen_wb f b \<notin> set (fst (main w argv))"
      using g prep_gate_failed by blast
  qed
qed

theorem output_opened_only_after_prep_witness:
  "fst (main example_world [''scrypt'', ''dec'', ''in'', ''out'']) =
     [Fopen_rb ''in'' True,
      Readpass ''Please enter passphrase'' None 1 (Some ''hunter2''),
      Scryptdec_file_prep ''hunter2''
        \<lparr>maxmem = 0, maxmemfrac = 0.5, maxtime = 300, logN = 0, r = 0, p = 0\<rparr>
        False False SCRYPT_OK] @
     Fopen_wb ''out'' True #
     [Scryptdec_file_copy SCRYPT_OK,
      Scryptdec_file_cookie_free,
      Insecure_memzero 7,
      Free_passwd [CHR 0x00, CHR 0x00, CHR 0x00, CHR 0x00, CHR 0x00, CHR 0x00, CHR 0x00],
      Fclose_infile,
      Fclose_outfile] \<and>
   (\<exists>pw ps v fo. Scryptdec_file_prep pw ps v fo SCRYPT_OK \<in>
      set [Fopen_rb ''in'' True,
           Readpass ''Please enter passphrase'' None 1 (Some ''hunter2''),
           Scryptdec_file_prep ''hunter2''
             \<lparr>maxmem = 0, maxmemfrac = 0.5, maxtime = 300, logN = 0, r = 0, p = 0\<rparr>
             False False SCRYPT_OK]) \<and>
   Fopen_wb ''out'' True \<notin>
     set (fst (main (example_world\<lparr>scryptdec_file_prep := (\<lambda>passwd ps v fo. SCRYPT_EPASS)\<rparr>)
                [''scrypt'', ''dec'', ''in'', ''out'']))"
proof -
  have a: "2 \<le> length [''scrypt'', ''dec'', ''in'', ''out'']" by simp
  have b: "[''scrypt'', ''dec'', ''in'', ''out''] ! 1 = ''dec''" by simp
  note t1 = output_opened_only_after_prep [OF a b, of example_world]
  note t2 = output_opened_only_after_prep [OF a b,
      of "example_world\<lparr>scryptdec_file_prep := (\<lambda>passwd ps v fo. SCRYPT_EPASS)\<rparr>"]
  let ?pre = "[Fopen_rb ''in'' True,
           Readpass ''Please enter passphrase'' None 1 (Some ''hunter2''),
           Scryptdec_file_prep ''hunter2''
             \<lparr>maxmem = 0, maxmemfrac = 0.5, maxtime = 300, logN = 0, r = 0, p = 0\<rparr>
             False False SCRYPT_OK]"
  let ?post = "[Scryptdec_file_copy SCRYPT_OK,
      Scryptdec_file_cookie_free,
      Insecure_memzero 7,
      Free_passwd [CHR 0x00, CHR 0x00, CHR 0x00, CHR 0x00, CHR 0x00, CHR 0x00, CHR 0x00],
      Fclose_infile,
      Fclose_outfile]"
  from t1 have "fst (main example_world [''scrypt'', ''dec'', ''in'', ''out'']) =
      ?pre @ Fopen_wb ''out'' True # ?post \<longrightarrow>
      (\<exists>pw ps v fo. Scryptdec_file_prep pw ps v fo SCRYPT_OK \<in> set ?pre)"
    by blast
  then have "\<exists>pw ps v fo. Scryptdec_file_prep pw ps v fo SCRYPT_OK \<in> set ?pre"
    by (simp add: run_dec_in_out)
  moreover have "Fopen_wb ''out'' True \<notin>
     set (fst (main (example_world\<lparr>scryptdec_file_prep := (\<lambda>passwd ps v fo. SCRYPT_EPASS)\<rparr>)
                [''scrypt'', ''dec'', ''in'', ''out'']))"
    using t2 by (simp add: run_dec_wrong_passphrase)
  moreover have "fst (main example_world [''scrypt'', ''dec'', ''in'', ''out'']) =
      ?pre @ Fopen_wb ''out'' True # ?post"
    by (simp add: run_dec_in_out)
  ultimately show ?thesis by blast
qed

subsection \<open>C2: what parse_passphrase_arg reads\<close>





text \<open>
  The function taken by itself does read the global: were it ever called with an argument
  other than \<open>optarg\<close>, the same argument would be classified by what \<open>optarg\<close> holds. No
  call of the program does so.
\<close>

lemma parse_passphrase_arg_reads_optarg:
  "parse_passphrase_arg ''env:HOME'' ''env:HOME'' =
     \<lparr>ret = 0, entry_out = Some PASSPHRASE_ENV, arg_out = Some ''HOME'', warned = []\<rparr> \<and>
   parse_passphrase_arg ''12'' ''env:HOME'' =
     \<lparr>ret = -1, entry_out = None, arg_out = Some ''HOME'',
      warned = [Warn0 ''Invalid option: --passphrase env:HOME'']\<rparr> \<and>
   parse_passphrase_arg ''file:key'' ''env:HOME'' =
     \<lparr>ret = 0, entry_out = Some PASSPHRASE_FILE, arg_out = Some ''HOME'', warned = []\<rparr>"
  by (simp add: parse_passphrase_arg_def after_colon_def strncmp_eq_def)

subsection \<open>C3: the range of -l\<close>

text \<open>
  Claim C3, as amended. When the option loop reaches \<open>-l s\<close>, the option is accepted
  exactly when \<open>s\<close> denotes an integer in [10, 2048], which becomes \<open>logN\<close>; otherwise
  the run ends there with exit code 1 and the warning "Invalid option: -l s".
\<close>

theorem logN_option_range:
  assumes "2 \<le> length argv"
    and "subcommand w (argv ! 1) locals_init = Inr st0"
    and "getopt w (tl argv) = (pre @ GETOPT_OPTARG ''-l'' s # post, operands)"
    and "getopt_loop w pre st0 = Inr st"
  shows "case strtoi w s of
           None \<Rightarrow> main w argv = ([Warnp (''Invalid option: -l '' @ s)], 1)
         | Some v \<Rightarrow>
             if 10 \<le> v \<and> v \<le> 2048 then
               getopt_loop w (pre @ [GETOPT_OPTARG ''-l'' s]) st0 =
                 Inr (st\<lparr>params := (params st)\<lparr>logN := v\<rparr>\<rparr>)
             else main w argv = ([Warnp (''Invalid option: -l '' @ s)], 1)"
  using main_run [OF assms(1,2,3)] assms(4)
  by (auto simp: getopt_loop_append PARSENUM_int_def split: option.splits)

theorem logN_option_range_witness:
  "strtoi example_world ''12'' = Some 12 \<and>
   getopt_loop example_world ([GETOPT_OPT ''-v''] @ [GETOPT_OPTARG ''-l'' ''12''])
       (locals_init\<lparr>dec := True\<rparr>) =
     Inr (locals_init\<lparr>dec := True, verbose := True, params := params_init\<lparr>logN := 12\<rparr>\<rparr>) \<and>
   strtoi example_world ''2'' = Some 2 \<and>
   main example_world [''scrypt'', ''dec'', ''-l'', ''2'', ''-r'', ''0'', ''-p'', ''0'', ''in''] =
     ([Warnp ''Invalid option: -l 2''], 1)"
proof -
  let ?argv = "[''scrypt'', ''dec'', ''-v'', ''-l'', ''12'', ''in'']"
  let ?st0 = "locals_init\<lparr>dec := True\<rparr>"
  have a: "2 \<le> length ?argv" by simp
  have b: "subcommand example_world (?argv ! 1) locals_init = Inr ?st0"
    by (simp add: subcommand_def)
  have c: "getopt example_world (tl ?argv) =
      ([GETOPT_OPT ''-v''] @ GETOPT_OPTARG ''-l'' ''12'' # [], [''in''])"
    by (simp add: example_world_def)
  have d: "getopt_loop example_world [GETOPT_OPT ''-v''] ?st0 = Inr (?st0\<lparr>verbose := True\<rparr>)"
    by simp
  have e: "strtoi example_world ''12'' = Some 12"
    by (simp add: example_world_def decimal_int_def digit_def)
  let ?argv' = "[''scrypt'', ''dec'', ''-l'', ''2'', ''-r'', ''0'', ''-p'', ''0'', ''in'']"
  have a': "2 \<le> length ?argv'" by simp
  have b': "subcommand example_world (?argv' ! 1) locals_init = Inr ?st0"
    by (simp add: subcommand_def)
  have c': "getopt example_world (tl ?argv') =
      ([] @ GETOPT_OPTARG ''-l'' ''2'' # [GETOPT_OPTARG ''-r'' ''0'', GETOPT_OPTARG ''-p'' ''0''],
       [''in''])"
    by (simp add: example_world_def)
  have d': "getopt_loop example_world [] ?st0 = Inr ?st0" by simp
  have e': "strtoi example_world ''2'' = Some 2"
    by (simp add: example_world_def decimal_int_def digit_def)
  from logN_option_range [OF a b c d] e
  have "getopt_loop example_world ([GETOPT_OPT ''-v''] @ [GETOPT_OPTARG ''-l'' ''12'']) ?st0 =
      Inr (?st0\<lparr>verbose := True, params := params_init\<lparr>logN := 12\<rparr>\<rparr>)"
    by (simp add: locals_init_def)
  moreover from logN_option_range [OF a' b' c' d'] e'
  have "main example_world ?argv' = ([Warnp ''Invalid option: -l 2''], 1)"
    by simp
  ultimately show ?thesis using e e' by (simp add: locals_init_def)
qed

text \<open>The claim as it was stated rejects every value above 40; \<open>-l 41\<close> is accepted.\<close>

theorem logN_41_accepted:
  "main example_world [''scrypt'', ''enc'', ''-l'', ''41'', ''in'', ''out''] =
     ([Fopen_rb ''in'' True,
       Readpass ''Please enter passphrase'' (Some ''Please confirm passphrase'') 1
         (Some ''hunter2''),
       Fopen_wb ''out'' True,
       Scryptenc_file ''hunter2''
         \<lparr>maxmem = 0, maxmemfrac = 0.125, maxtime = 5, logN = 41, r = 0, p = 0\<rparr>
         False SCRYPT_OK,
       Scryptdec_file_cookie_free,
       Insecure_memzero 7,
       Free_passwd [CHR 0x00, CHR 0x00, CHR 0x00, CHR 0x00, CHR 0x00, CHR 0x00, CHR 0x00],
       Fclose_infile,
       Fclose_outfile], 0)"
  by (simp add: run_defs)


subsection \<open>C4: the range of -m\<close>

text \<open>
  Claim C4, as amended. When the option loop reaches \<open>-m s\<close>, the option is accepted
  exactly when \<open>s\<close> denotes a number in [0, 1], which becomes \<open>maxmemfrac\<close>; otherwise
  the run ends there with exit code 1 and the warning "Invalid option: -m s".
\<close>

theorem maxmemfrac_option_range:
  assumes "2 \<le> length argv"
    and "subcommand w (argv ! 1) locals_init = Inr st0"
    and "getopt w (tl argv) = (pre @ GETOPT_OPTARG ''-m'' s # post, operands)"
    and "getopt_loop w pre st0 = Inr st"
  shows "case strtod w s of
           None \<Rightarrow> main w argv = ([Warnp (''Invalid option: -m '' @ s)], 1)
         | Some v \<Rightarrow>
             if 0 \<le> v \<and> v \<le> 1 then
               getopt_loop w (pre @ [GETOPT_OPTARG ''-m'' s]) st0 =
                 Inr (st\<lparr>params := (params st)\<lparr>maxmemfrac := v\<rparr>\<rparr>)
             else main w argv = ([Warnp (''Invalid option: -m '' @ s)], 1)"
  using main_run [OF assms(1,2,3)] assms(4)
  by (auto simp: getopt_loop_append PARSENUM_double_def split: option.splits)

theorem maxmemfrac_option_range_witness:
  "strtod example_world ''0.75'' = Some 0.75 \<and>
   getopt_loop example_world ([GETOPT_OPT ''-v''] @ [GETOPT_OPTARG ''-m'' ''0.75''])
       (locals_init\<lparr>dec := True\<rparr>) =
     Inr (locals_init\<lparr>dec := True, verbose := True,
            params := params_init\<lparr>maxmemfrac := 0.75\<rparr>\<rparr>) \<and>
   strtod example_world ''1.5'' = Some 1.5 \<and>
   main example_world [''scrypt'', ''dec'', ''-m'', ''1.5'', ''in''] =
     ([Warnp ''Invalid option: -m 1.5''], 1)"
proof -
  let ?argv = "[''scrypt'', ''dec'', ''-v'', ''-m'', ''0.75'', ''in'']"
  let ?st0 = "locals_init\<lparr>dec := True\<rparr>"
  have a: "2 \<le> length ?argv" by simp
  have b: "subcommand example_world (?argv ! 1) locals_init = Inr ?st0"
    by (simp add: subcommand_def)
  have c: "getopt example_world (tl ?argv) =
      ([GETOPT_OPT ''-v''] @ GETOPT_OPTARG ''-m'' ''0.75'' # [], [''in''])"
    by (simp add: example_world_def)
  have d: "getopt_loop example_world [GETOPT_OPT ''-v''] ?st0 = Inr (?st0\<lparr>verbose := True\<rparr>)"
    by simp
  have e: "strtod example_world ''0.75'' = Some 0.75"
    by (simp add: example_world_def decimal_real_def decimal_int_def digit_def)
  let ?argv' = "[''scrypt'', ''dec'', ''-m'', ''1.5'', ''in'']"
  have a': "2 \<le> length ?argv'" by simp
  have b': "subcommand example_world (?argv' ! 1) locals_init = Inr ?st0"
    by (simp add: subcommand_def)
  have c': "getopt example_world (tl ?argv') =
      ([] @ GETOPT_OPTARG ''-m'' ''1.5'' # [], [''in''])"
    by (simp add: example_world_def)
  have d': "getopt_loop example_world [] ?st0 = Inr ?st0" by simp
  have e': "strtod example_world ''1.5'' = Some 1.5"
    by (simp add: example_world_def decimal_real_def decimal_int_def digit_def)
  from maxmemfrac_option_range [OF a b c d] e
  have "getopt_loop example_world ([GETOPT_OPT ''-v''] @ [GETOPT_OPTARG ''-m'' ''0.75'']) ?st0 =
      Inr (?st0\<lparr>verbose := True, params := params_init\<lparr>maxmemfrac := 0.75\<rparr>\<rparr>)"
    by (simp add: locals_init_def)
  moreover from maxmemfrac_option_range [OF a' b' c' d'] e'
  have "main example_world ?argv' = ([Warnp ''Invalid option: -m 1.5''], 1)"
    by simp
  ultimately show ?thesis using e e' by (simp add: locals_init_def)
qed

text \<open>
  The claim as it was stated rejects every value above 0.5; \<open>-m 0.75\<close> is accepted and
  handed to the library.
\<close>

theorem maxmemfrac_three_quarters_accepted:
  "main example_world [''scrypt'', ''enc'', ''-m'', ''0.75'', ''-P'', ''in''] =
     ([Fopen_rb ''in'' True,
       Readpass ''Please enter passphrase'' None 0 (Some ''hunter2''),
       Scryptenc_file ''hunter2''
         \<lparr>maxmem = 0, maxmemfrac = 0.75, maxtime = 5, logN = 0, r = 0, p = 0\<rparr>
         False SCRYPT_OK,
       Scryptdec_file_cookie_free,
       Insecure_memzero 7,
       Free_passwd [CHR 0x00, CHR 0x00, CHR 0x00, CHR 0x00, CHR 0x00, CHR 0x00, CHR 0x00],
       Fclose_infile], 0)"
  by (simp add: run_defs)


subsection \<open>C5: passphrase and input both from standard input\<close>

text \<open>
  Claim C5. If all options are accepted, one of them is \<open>-P\<close> or
  \<open>--passphrase dev:stdin-once\<close>, and the input file operand is \<open>-\<close>, then the run
  consists of the conflict diagnostic alone and exits with code 1: nothing is opened or
  read before.
\<close>

theorem stdin_passphrase_and_stdin_input_rejected:
  assumes "2 \<le> length argv"
    and "subcommand w (argv ! 1) locals_init = Inr st0"
    and "getopt w (tl argv) = (opts, operands)"
    and "getopt_loop w opts st0 = Inr st"
    and "GETOPT_OPT ''-P'' \<in> set opts \<or>
         GETOPT_OPTARG ''--passphrase'' ''dev:stdin-once'' \<in> set opts"
    and "operands = [''-''] \<or> operands = [''-'', outfile]"
  shows "main w argv =
    ([Warn0 ''Cannot read both passphrase and input file from standard input''], 1)"
  using main_run [OF assms(1,2,3)] assms(4,6) getopt_loop_stdin_once [OF assms(4,5)]
  by (auto simp: after_getopt_def Let_def)

theorem stdin_passphrase_and_stdin_input_rejected_witness:
  "getopt example_world (tl [''scrypt'', ''dec'', ''--passphrase'', ''dev:stdin-once'', ''-'', ''out'']) =
     ([GETOPT_OPTARG ''--passphrase'' ''dev:stdin-once''], [''-'', ''out'']) \<and>
   main example_world [''scrypt'', ''dec'', ''--passphrase'', ''dev:stdin-once'', ''-'', ''out''] =
     ([Warn0 ''Cannot read both passphrase and input file from standard input''], 1)"
proof -
  let ?argv = "[''scrypt'', ''dec'', ''--passphrase'', ''dev:stdin-once'', ''-'', ''out'']"
  let ?st0 = "locals_init\<lparr>dec := True\<rparr>"
  let ?opts = "[GETOPT_OPTARG ''--passphrase'' ''dev:stdin-once'']"
  have a: "2 \<le> length ?argv" by simp
  have b: "subcommand example_world (?argv ! 1) locals_init = Inr ?st0"
    by (simp add: subcommand_def)
  have c: "getopt example_world (tl ?argv) = (?opts, [''-'', ''out''])"
    by (simp add: example_world_def)
  have d: "getopt_loop example_world ?opts ?st0 =
      Inr (?st0\<lparr>passphrase_entry := PASSPHRASE_STDIN_ONCE, passphrase_arg := Some ''stdin-once''\<rparr>)"
    by (simp add: run_defs)
  have e: "GETOPT_OPT ''-P'' \<in> set ?opts \<or>
      GETOPT_OPTARG ''--passphrase'' ''dev:stdin-once'' \<in> set ?opts" by simp
  have f: "[''-'', ''out''] = [''-''] \<or> [''-'', ''out''] = [''-'', ''out'']" by simp
  from stdin_passphrase_and_stdin_input_rejected [OF a b c d e f] c show ?thesis by simp
qed

subsection \<open>C6: more than one passphrase option\<close>

text \<open>
  Claim C6, as amended. A command line for \<open>enc\<close>, \<open>dec\<close> or \<open>info\<close> with more than one
  passphrase option exits with code 1; the diagnostic is "You can only enter one
  --passphrase or -P argument" whenever the options before the second passphrase option
  were all accepted. Options are handled from left to right and the first one that is
  rejected ends the run with its own diagnostic.
\<close>

theorem second_passphrase_option_rejected:
  assumes "2 \<le> length argv"
    and "subcommand w (argv ! 1) locals_init = Inr st0"
    and "getopt w (tl argv) = (opts, operands)"
    and "2 \<le> length (filter is_passphrase_option opts)"
  shows "snd (main w argv) = 1 \<and>
    (\<forall>pre t post st. opts = pre @ t # post \<and> is_passphrase_option t \<and>
        (\<exists>u\<in>set pre. is_passphrase_option u) \<and> getopt_loop w pre st0 = Inr st \<longrightarrow>
        main w argv = ([Warn0 ''You can only enter one --passphrase or -P argument''], 1))"
proof (intro conjI allI impI)
  note m = main_run [OF assms(1,2,3)]
  obtain out where out: "getopt_loop w opts st0 = Inl out"
    using getopt_loop_one_passphrase_option [of w opts st0] assms(4)
    by (cases "getopt_loop w opts st0") auto
  then show "snd (main w argv) = 1"
    using m getopt_loop_exit [of w opts st0 "fst out" "snd out"] by simp
next
  fix pre t post st
  assume a: "opts = pre @ t # post \<and> is_passphrase_option t \<and>
        (\<exists>u\<in>set pre. is_passphrase_option u) \<and> getopt_loop w pre st0 = Inr st"
  then obtain u where u: "u \<in> set pre" "is_passphrase_option u" by blast
  then obtain xs ys where x: "pre = xs @ u # ys" by (auto dest: split_list)
  then obtain s1 s2 where s: "getopt_loop w xs st0 = Inr s1" "getopt_switch w u s1 = Inr s2"
    "getopt_loop w ys s2 = Inr st"
    using a getopt_loop_split by blast
  have "passphrase_entry s2 \<noteq> PASSPHRASE_UNSET"
    using getopt_switch_entry_set [OF s(2) u(2)] by simp
  then have e: "passphrase_entry st \<noteq> PASSPHRASE_UNSET"
    using getopt_loop_entry_kept [OF s(3)] by simp
  have "getopt_switch w t st = Inl (only_one_passphrase, 1)"
    using a e by (cases t) auto
  then have "getopt_loop w opts st0 = Inl (only_one_passphrase, 1)"
    using a by (simp add: getopt_loop_append)
  then show "main w argv = ([Warn0 ''You can only enter one --passphrase or -P argument''], 1)"
    using main_run [OF assms(1,2,3)] by (simp add: only_one_passphrase_def)
qed

theorem second_passphrase_option_rejected_witness:
  "getopt example_world (tl [''scrypt'', ''dec'', ''-P'', ''--passphrase'', ''dev:stdin-once'', ''in'']) =
     ([GETOPT_OPT ''-P'', GETOPT_OPTARG ''--passphrase'' ''dev:stdin-once''], [''in'']) \<and>
   main example_world [''scrypt'', ''dec'', ''-P'', ''--passphrase'', ''dev:stdin-once'', ''in''] =
     ([Warn0 ''You can only enter one --passphrase or -P argument''], 1)"
proof -
  let ?argv = "[''scrypt'', ''dec'', ''-P'', ''--passphrase'', ''dev:stdin-once'', ''in'']"
  let ?st0 = "locals_init\<lparr>dec := True\<rparr>"
  let ?opts = "[GETOPT_OPT ''-P'', GETOPT_OPTARG ''--passphrase'' ''dev:stdin-once'']"
  have a: "2 \<le> length ?argv" by simp
  have b: "subcommand example_world (?argv ! 1) locals_init = Inr ?st0"
    by (simp add: subcommand_def)
  have c: "getopt example_world (tl ?argv) = (?opts, [''in''])"
    by (simp add: example_world_def)
  have d: "2 \<le> length (filter is_passphrase_option ?opts)" by simp
  have e: "getopt_loop example_world [GETOPT_OPT ''-P''] ?st0 =
      Inr (?st0\<lparr>passphrase_entry := PASSPHRASE_STDIN_ONCE\<rparr>)"
    by (simp add: locals_init_def)
  from second_passphrase_option_rejected [OF a b c d]
  have "?opts = [GETOPT_OPT ''-P''] @ GETOPT_OPTARG ''--passphrase'' ''dev:stdin-once'' # [] \<and>
      is_passphrase_option (GETOPT_OPTARG ''--passphrase'' ''dev:stdin-once'') \<and>
      (\<exists>u\<in>set [GETOPT_OPT ''-P'']. is_passphrase_option u) \<and>
      getopt_loop example_world [GETOPT_OPT ''-P''] ?st0 =
        Inr (?st0\<lparr>passphrase_entry := PASSPHRASE_STDIN_ONCE\<rparr>) \<longrightarrow>
      main example_world ?argv =
        ([Warn0 ''You can only enter one --passphrase or -P argument''], 1)"
    by blast
  then show ?thesis using c e by simp
qed

text \<open>
  The claim as it was stated fails on a command line whose first option is rejected:
  \<open>scrypt enc -l 2 -P -P in out\<close> has two passphrase options and ends with the
  diagnostic of \<open>-l\<close>.
\<close>

theorem two_passphrase_options_other_diagnostic:
  "length (filter is_passphrase_option
     (fst (getopt example_world (tl [''scrypt'', ''enc'', ''-l'', ''2'', ''-P'', ''-P'', ''in'', ''out''])))) = 2 \<and>
   main example_world [''scrypt'', ''enc'', ''-l'', ''2'', ''-P'', ''-P'', ''in'', ''out''] =
     ([Warnp ''Invalid option: -l 2''], 1) \<and>
   Warn0 ''You can only enter one --passphrase or -P argument'' \<notin>
     set (fst (main example_world [''scrypt'', ''enc'', ''-l'', ''2'', ''-P'', ''-P'', ''in'', ''out'']))"
  by (simp add: run_defs)

subsection \<open>C7: wrong passphrase and invalid input\<close>

text \<open>
  Claim C7. A run in which a call into the library returned \<open>SCRYPT_EPASS\<close> or
  \<open>SCRYPT_EINVAL\<close> exits with code 1, and its only warning is "Passphrase is incorrect"
  for the former and "Input is not valid scrypt-encrypted block" for the latter; the two
  messages differ.
\<close>

theorem wrong_passphrase_and_invalid_input_diagnostics:
  assumes "e \<in> set (fst (main w argv))"
    and "library_rc e = Some rc"
    and "rc = SCRYPT_EPASS \<or> rc = SCRYPT_EINVAL"
  shows "snd (main w argv) = 1 \<and>
         filter is_warning (fst (main w argv)) =
           [Warn0 (if rc = SCRYPT_EPASS then ''Passphrase is incorrect''
                   else ''Input is not valid scrypt-encrypted block'')] \<and>
         ''Passphrase is incorrect'' \<noteq> ''Input is not valid scrypt-encrypted block''"
proof -
  have "rc \<noteq> SCRYPT_OK" using assms(3) by auto
  from main_failed [OF assms(1,2) this] assms(3) show ?thesis by auto
qed

theorem wrong_passphrase_and_invalid_input_diagnostics_witness:
  "library_rc (Scryptdec_file_prep ''hunter2''
       \<lparr>maxmem = 0, maxmemfrac = 0.5, maxtime = 300, logN = 0, r = 0, p = 0\<rparr>
       False False SCRYPT_EPASS) = Some SCRYPT_EPASS \<and>
   snd (main (example_world\<lparr>scryptdec_file_prep := (\<lambda>passwd ps v fo. SCRYPT_EPASS)\<rparr>)
          [''scrypt'', ''dec'', ''in'', ''out'']) = 1 \<and>
   filter is_warning
     (fst (main (example_world\<lparr>scryptdec_file_prep := (\<lambda>passwd ps v fo. SCRYPT_EPASS)\<rparr>)
             [''scrypt'', ''dec'', ''in'', ''out''])) =
     [Warn0 ''Passphrase is incorrect''] \<and>
   library_rc (Scryptdec_file_copy SCRYPT_EINVAL) = Some SCRYPT_EINVAL \<and>
   snd (main (example_world\<lparr>scryptdec_file_copy := SCRYPT_EINVAL\<rparr>)
          [''scrypt'', ''dec'', ''in'', ''out'']) = 1 \<and>
   filter is_warning
     (fst (main (example_world\<lparr>scryptdec_file_copy := SCRYPT_EINVAL\<rparr>)
             [''scrypt'', ''dec'', ''in'', ''out''])) =
     [Warn0 ''Input is not valid scrypt-encrypted block'']"
proof -
  let ?w1 = "example_world\<lparr>scryptdec_file_prep := (\<lambda>passwd ps v fo. SCRYPT_EPASS)\<rparr>"
  let ?w2 = "example_world\<lparr>scryptdec_file_copy := SCRYPT_EINVAL\<rparr>"
  let ?argv = "[''scrypt'', ''dec'', ''in'', ''out'']"
  let ?e1 = "Scryptdec_file_prep ''hunter2''
       \<lparr>maxmem = 0, maxmemfrac = 0.5, maxtime = 300, logN = 0, r = 0, p = 0\<rparr>
       False False SCRYPT_EPASS"
  let ?e2 = "Scryptdec_file_copy SCRYPT_EINVAL"
  have a1: "?e1 \<in> set (fst (main ?w1 ?argv))"
    by (simp add: run_dec_wrong_passphrase)
  have b1: "library_rc ?e1 = Some SCRYPT_EPASS" by simp
  have c1: "SCRYPT_EPASS = SCRYPT_EPASS \<or> SCRYPT_EPASS = SCRYPT_EINVAL" by simp
  have a2: "?e2 \<in> set (fst (main ?w2 ?argv))"
    by (simp add: run_defs)
  have b2: "library_rc ?e2 = Some SCRYPT_EINVAL" by simp
  have c2: "SCRYPT_EINVAL = SCRYPT_EPASS \<or> SCRYPT_EINVAL = SCRYPT_EINVAL" by simp
  from wrong_passphrase_and_invalid_input_diagnostics [OF a1 b1 c1]
    wrong_passphrase_and_invalid_input_diagnostics [OF a2 b2 c2]
  show ?thesis by simp
qed


subsection \<open>C8: the passphrase is cleared before its buffer is released\<close>

text \<open>
  Claim C8. After any event of a run that hands \<open>main\<close> a passphrase buffer, the run goes
  on to clear all bytes of the passphrase and, directly afterwards, to release a buffer that
  holds zero bytes only; the buffer is not released earlier. This covers every way the
  run can end: success, failure of \<open>scryptdec_file_prep\<close>, failure of the copy or the
  encryption, and failure to open the output file.
\<close>

theorem passphrase_zeroed_before_free:
  assumes "fst (main w argv) = pre @ e # post" and "acquires e = Some pw"
  shows "\<exists>mid rest. post = mid @ Insecure_memzero (length pw) #
                  Free_passwd (replicate (length pw) (CHR 0x00)) # rest \<and>
              (\<forall>x\<in>set mid. \<not> is_free x)"
  using main_wipe_ok [of w argv] assms wipe_ok_explicit wiped_explicit by metis

theorem passphrase_zeroed_before_free_witness:
  "acquires (Readpass ''Please enter passphrase'' None 1 (Some ''hunter2'')) = Some ''hunter2'' \<and>
   (\<exists>mid rest.
      [Scryptdec_file_prep ''hunter2''
         \<lparr>maxmem = 0, maxmemfrac = 0.5, maxtime = 300, logN = 0, r = 0, p = 0\<rparr>
         False False SCRYPT_EPASS,
       Scryptdec_file_cookie_free,
       Insecure_memzero 7,
       Free_passwd [CHR 0x00, CHR 0x00, CHR 0x00, CHR 0x00, CHR 0x00, CHR 0x00, CHR 0x00],
       Fclose_infile,
       Warn0 ''Passphrase is incorrect''] =
      mid @ Insecure_memzero (length ''hunter2'') #
        Free_passwd (replicate (length ''hunter2'') (CHR 0x00)) # rest \<and>
      (\<forall>x\<in>set mid. \<not> is_free x))"
proof -
  let ?w = "example_world\<lparr>scryptdec_file_prep := (\<lambda>passwd ps v fo. SCRYPT_EPASS)\<rparr>"
  let ?e = "Readpass ''Please enter passphrase'' None 1 (Some ''hunter2'')"
  have a: "fst (main ?w [''scrypt'', ''dec'', ''in'', ''out'']) =
      [Fopen_rb ''in'' True] @ ?e #
      [Scryptdec_file_prep ''hunter2''
         \<lparr>maxmem = 0, maxmemfrac = 0.5, maxtime = 300, logN = 0, r = 0, p = 0\<rparr>
         False False SCRYPT_EPASS,
       Scryptdec_file_cookie_free,
       Insecure_memzero 7,
       Free_passwd [CHR 0x00, CHR 0x00, CHR 0x00, CHR 0x00, CHR 0x00, CHR 0x00, CHR 0x00],
       Fclose_infile,
       Warn0 ''Passphrase is incorrect'']"
    by (simp add: run_dec_wrong_passphrase)
  have b: "acquires ?e = Some ''hunter2''" by simp
  from passphrase_zeroed_before_free [OF a b] b show ?thesis by blast
qed

subsection \<open>C9: the default passphrase entry method\<close>

text \<open>
  Claim C9. When encrypting or decrypting with no passphrase option, with all options
  accepted and the input available, the first thing the run does after opening the input
  is to call \<open>readpass\<close> with \<open>devtty = 1\<close> (terminal if there is one, else standard
  input), which is what \<open>dev:tty-stdin\<close> does; the confirmation prompt is passed when
  encrypting and is NULL when decrypting.
\<close>

theorem default_passphrase_entry:
  assumes "2 \<le> length argv"
    and "argv ! 1 = ''enc'' \<or> argv ! 1 = ''dec''"
    and "subcommand w (argv ! 1) locals_init = Inr st0"
    and "getopt w (tl argv) = (opts, operands)"
    and "getopt_loop w opts st0 = Inr st"
    and "\<forall>t\<in>set opts. \<not> is_passphrase_option t"
    and "operands = [infile] \<or> operands = [infile, outfile]"
    and "infile = ''-'' \<or> fopen_rb w infile"
  shows "\<exists>rest. fst (main w argv) =
     (if infile = ''-'' then [] else [Fopen_rb infile True]) @
     Readpass ''Please enter passphrase''
       (if argv ! 1 = ''dec'' then None else Some ''Please confirm passphrase'') 1
       (readpass w ''Please enter passphrase''
          (if argv ! 1 = ''dec'' then None else Some ''Please confirm passphrase'') 1) # rest"
proof -
  have e: "passphrase_entry st = PASSPHRASE_UNSET"
    using getopt_loop_entry_other [OF assms(5,6)] subcommand_entry [OF assms(3)] by simp
  have m: "dec st = (argv ! 1 = ''dec'')" "\<not> info st"
    using getopt_loop_mode [OF assms(5)] subcommand_mode [OF assms(3)] assms(2) by auto
  have r: "main w argv = after_getopt w st operands"
    using main_run [OF assms(1,3,4)] assms(5) by simp
  show ?thesis
    using e m assms(7,8) unfolding r
    by (auto simp: after_getopt_def with_input_def get_password_def Let_def after_def
        split: option.splits)
qed

theorem default_passphrase_entry_witness:
  "(\<exists>rest. fst (main example_world [''scrypt'', ''enc'', ''-v'', ''in'', ''out'']) =
      [Fopen_rb ''in'' True] @
      Readpass ''Please enter passphrase'' (Some ''Please confirm passphrase'') 1
        (Some ''hunter2'') # rest) \<and>
   (\<exists>rest. fst (main example_world [''scrypt'', ''dec'', ''-v'', ''-'']) =
      [] @ Readpass ''Please enter passphrase'' None 1 (Some ''hunter2'') # rest)"
proof -
  let ?opts = "[GETOPT_OPT ''-v'']"
  let ?argv = "[''scrypt'', ''enc'', ''-v'', ''in'', ''out'']"
  let ?st0 = "locals_init\<lparr>params := params_init\<lparr>maxmem := 0, maxmemfrac := 0.125, maxtime := 5\<rparr>\<rparr>"
  have a: "2 \<le> length ?argv" by simp
  have b: "?argv ! 1 = ''enc'' \<or> ?argv ! 1 = ''dec''" by simp
  have c: "subcommand example_world (?argv ! 1) locals_init = Inr ?st0"
    by (simp add: subcommand_def locals_init_def)
  have d: "getopt example_world (tl ?argv) = (?opts, [''in'', ''out''])"
    by (simp add: example_world_def)
  have e: "getopt_loop example_world ?opts ?st0 = Inr (?st0\<lparr>verbose := True\<rparr>)" by simp
  have f: "\<forall>t\<in>set ?opts. \<not> is_passphrase_option t" by simp
  have g: "[''in'', ''out''] = [''in''] \<or> [''in'', ''out''] = [''in'', ''out'']" by simp
  have h: "''in'' = ''-'' \<or> fopen_rb example_world ''in''" by (simp add: example_world_def)
  let ?argv' = "[''scrypt'', ''dec'', ''-v'', ''-'']"
  let ?st0' = "locals_init\<lparr>dec := True\<rparr>"
  have a': "2 \<le> length ?argv'" by simp
  have b': "?argv' ! 1 = ''enc'' \<or> ?argv' ! 1 = ''dec''" by simp
  have c': "subcommand example_world (?argv' ! 1) locals_init = Inr ?st0'"
    by (simp add: subcommand_def)
  have d': "getopt example_world (tl ?argv') = (?opts, [''-''])"
    by (simp add: example_world_def)
  have e': "getopt_loop example_world ?opts ?st0' = Inr (?st0'\<lparr>verbose := True\<rparr>)" by simp
  have g': "[''-''] = [''-''] \<or> [''-''] = [''-'', ''unused'']" by simp
  have h': "''-'' = ''-'' \<or> fopen_rb example_world ''-''" by simp
  from default_passphrase_entry [OF a b c d e f g h]
    default_passphrase_entry [OF a' b' c' d' e' f g' h']
  show ?thesis by (simp add: example_world_def)
qed


subsection \<open>C10: the default resource budget\<close>

text \<open>
  Claim C10. With no \<open>-M\<close>, \<open>-m\<close> or \<open>-t\<close> among the accepted options, the budget after
  the option loop is \<open>maxmem = 0\<close>, \<open>maxmemfrac = 0.125\<close>, \<open>maxtime = 5\<close> for \<open>enc\<close> and
  \<open>maxmem = 0\<close>, \<open>maxmemfrac = 0.5\<close>, \<open>maxtime = 300\<close> for \<open>dec\<close> and \<open>info\<close>. Every call
  of the run that hands parameters to the library hands these, and the call is made: a
  \<open>dec\<close> run that acquired a passphrase calls \<open>scryptdec_file_prep\<close> with them, and an
  \<open>enc\<close> run that acquired a passphrase and has its output available calls
  \<open>scryptenc_file\<close> with them.
\<close>

theorem default_resource_budget:
  assumes "2 \<le> length argv"
    and "subcommand w (argv ! 1) locals_init = Inr st0"
    and "getopt w (tl argv) = (opts, operands)"
    and "getopt_loop w opts st0 = Inr st"
    and "\<forall>t\<in>set opts. \<not> is_budget_option t"
  shows "maxmem (params st) = 0 \<and>
         maxmemfrac (params st) = (if argv ! 1 = ''enc'' then 0.125 else 0.5) \<and>
         maxtime (params st) = (if argv ! 1 = ''enc'' then 5.0 else 300.0) \<and>
         (\<forall>e\<in>set (fst (main w argv)). \<forall>ps. passes_params e = Some ps \<longrightarrow> ps = params st) \<and>
         (\<forall>e pw. e \<in> set (fst (main w argv)) \<and> acquires e = Some pw \<longrightarrow>
            (argv ! 1 = ''dec'' \<longrightarrow>
               Scryptdec_file_prep pw (params st) (verbose st) (force_resources st)
                 (scryptdec_file_prep w pw (params st) (verbose st) (force_resources st))
               \<in> set (fst (main w argv))) \<and>
            (argv ! 1 = ''enc'' \<and> (length operands < 2 \<or> fopen_wb w (operands ! 1)) \<longrightarrow>
               Scryptenc_file pw (params st) (verbose st)
                 (scryptenc_file w pw (params st) (verbose st))
               \<in> set (fst (main w argv))))"
proof -
  have v: "maxmem (params st0) = 0 \<and>
        maxmemfrac (params st0) = (if argv ! 1 = ''enc'' then 0.125 else 0.5) \<and>
        maxtime (params st0) = (if argv ! 1 = ''enc'' then 5.0 else 300.0)"
    using assms(2) by (auto simp: subcommand_def locals_init_def params_init_def split: if_splits)
  have m: "main w argv = after_getopt w st operands"
    using main_run [OF assms(1,2,3)] assms(4) by simp
  have d: "dec st = (argv ! 1 = ''dec'')" "argv ! 1 = ''enc'' \<longrightarrow> \<not> dec st"
    using getopt_loop_mode [OF assms(4)] subcommand_mode [OF assms(2)] by auto
  have b: "maxmem (params st) = 0 \<and>
         maxmemfrac (params st) = (if argv ! 1 = ''enc'' then 0.125 else 0.5) \<and>
         maxtime (params st) = (if argv ! 1 = ''enc'' then 5.0 else 300.0)"
    using v getopt_loop_budget [OF assms(4,5)] by simp
  have q: "\<forall>e\<in>set (fst (main w argv)). \<forall>ps. passes_params e = Some ps \<longrightarrow> ps = params st"
    using after_getopt_params [of _ w st operands] unfolding m by blast
  have c: "\<forall>e pw. e \<in> set (fst (main w argv)) \<and> acquires e = Some pw \<longrightarrow>
            (argv ! 1 = ''dec'' \<longrightarrow>
               Scryptdec_file_prep pw (params st) (verbose st) (force_resources st)
                 (scryptdec_file_prep w pw (params st) (verbose st) (force_resources st))
               \<in> set (fst (main w argv))) \<and>
            (argv ! 1 = ''enc'' \<and> (length operands < 2 \<or> fopen_wb w (operands ! 1)) \<longrightarrow>
               Scryptenc_file pw (params st) (verbose st)
                 (scryptenc_file w pw (params st) (verbose st))
               \<in> set (fst (main w argv)))"
    using after_getopt_acquired [of _ w st operands] d unfolding m by blast
  show ?thesis using b q c by blast
qed

theorem default_resource_budget_witness:
  "maxmem (params (locals_init\<lparr>verbose := True,
       params := params_init\<lparr>maxmem := 0, maxmemfrac := 0.125, maxtime := 5, logN := 12\<rparr>\<rparr>)) = 0 \<and>
   maxmemfrac (params (locals_init\<lparr>verbose := True,
       params := params_init\<lparr>maxmem := 0, maxmemfrac := 0.125, maxtime := 5, logN := 12\<rparr>\<rparr>)) = 0.125 \<and>
   maxtime (params (locals_init\<lparr>verbose := True,
       params := params_init\<lparr>maxmem := 0, maxmemfrac := 0.125, maxtime := 5, logN := 12\<rparr>\<rparr>)) = 5 \<and>
   Scryptenc_file ''hunter2''
       \<lparr>maxmem = 0, maxmemfrac = 0.125, maxtime = 5, logN = 12, r = 0, p = 0\<rparr> True SCRYPT_OK
     \<in> set (fst (main example_world [''scrypt'', ''enc'', ''-v'', ''-l'', ''12'', ''in'', ''out''])) \<and>
   maxmem (params (locals_init\<lparr>dec := True, force_resources := True\<rparr>)) = 0 \<and>
   maxmemfrac (params (locals_init\<lparr>dec := True, force_resources := True\<rparr>)) = 0.5 \<and>
   maxtime (params (locals_init\<lparr>dec := True, force_resources := True\<rparr>)) = 300 \<and>
   Scryptdec_file_prep ''hunter2''
       \<lparr>maxmem = 0, maxmemfrac = 0.5, maxtime = 300, logN = 0, r = 0, p = 0\<rparr>
       False True SCRYPT_OK
     \<in> set (fst (main example_world [''scrypt'', ''dec'', ''-f'', ''in'', ''out'']))"
proof -
  let ?argv = "[''scrypt'', ''enc'', ''-v'', ''-l'', ''12'', ''in'', ''out'']"
  let ?opts = "[GETOPT_OPT ''-v'', GETOPT_OPTARG ''-l'' ''12'']"
  let ?ini = "locals_init\<lparr>params := params_init\<lparr>maxmem := 0, maxmemfrac := 0.125, maxtime := 5\<rparr>\<rparr>"
  let ?fin = "locals_init\<lparr>verbose := True,
       params := params_init\<lparr>maxmem := 0, maxmemfrac := 0.125, maxtime := 5, logN := 12\<rparr>\<rparr>"
  let ?enc_read = "Readpass ''Please enter passphrase'' (Some ''Please confirm passphrase'') 1
       (Some ''hunter2'')"
  have a: "2 \<le> length ?argv" by simp
  have b: "subcommand example_world (?argv ! 1) locals_init = Inr ?ini"
    by (simp add: subcommand_def locals_init_def)
  have c: "getopt example_world (tl ?argv) = (?opts, [''in'', ''out''])"
    by (simp add: example_world_def)
  have d: "getopt_loop example_world ?opts ?ini = Inr ?fin"
    by (simp add: example_world_def PARSENUM_int_def decimal_int_def digit_def locals_init_def)
  have e: "\<forall>t\<in>set ?opts. \<not> is_budget_option t" by simp
  have f: "?enc_read \<in> set (fst (main example_world ?argv)) \<and>
      acquires ?enc_read = Some ''hunter2''"
    by (simp add: run_defs)
  have g: "?argv ! 1 = ''enc'' \<and>
      (length [''in'', ''out''] < 2 \<or> fopen_wb example_world ([''in'', ''out''] ! 1))"
    by (simp add: example_world_def)
  let ?argv' = "[''scrypt'', ''dec'', ''-f'', ''in'', ''out'']"
  let ?opts' = "[GETOPT_OPT ''-f'']"
  let ?ini' = "locals_init\<lparr>dec := True\<rparr>"
  let ?fin' = "locals_init\<lparr>dec := True, force_resources := True\<rparr>"
  let ?dec_read = "Readpass ''Please enter passphrase'' None 1 (Some ''hunter2'')"
  have a': "2 \<le> length ?argv'" by simp
  have b': "subcommand example_world (?argv' ! 1) locals_init = Inr ?ini'"
    by (simp add: subcommand_def)
  have c': "getopt example_world (tl ?argv') = (?opts', [''in'', ''out''])"
    by (simp add: example_world_def)
  have d': "getopt_loop example_world ?opts' ?ini' = Inr ?fin'" by simp
  have e': "\<forall>t\<in>set ?opts'. \<not> is_budget_option t" by simp
  have f': "?dec_read \<in> set (fst (main example_world ?argv')) \<and>
      acquires ?dec_read = Some ''hunter2''"
    by (simp add: run_defs)
  have g': "?argv' ! 1 = ''dec''" by simp
  note t = default_resource_budget [OF a b c d e]
  note t' = default_resource_budget [OF a' b' c' d' e']
  have "Scryptenc_file ''hunter2'' (params ?fin) (verbose ?fin)
      (scryptenc_file example_world ''hunter2'' (params ?fin) (verbose ?fin))
      \<in> set (fst (main example_world ?argv))"
    using t f g by blast
  then have h: "Scryptenc_file ''hunter2''
       \<lparr>maxmem = 0, maxmemfrac = 0.125, maxtime = 5, logN = 12, r = 0, p = 0\<rparr> True SCRYPT_OK
     \<in> set (fst (main example_world ?argv))"
    by (simp add: example_world_def locals_init_def params_init_def)
  have "Scryptdec_file_prep ''hunter2'' (params ?fin') (verbose ?fin') (force_resources ?fin')
      (scryptdec_file_prep example_world ''hunter2'' (params ?fin') (verbose ?fin')
         (force_resources ?fin'))
      \<in> set (fst (main example_world ?argv'))"
    using t' f' g' by blast
  then have h': "Scryptdec_file_prep ''hunter2''
       \<lparr>maxmem = 0, maxmemfrac = 0.5, maxtime = 300, logN = 0, r = 0, p = 0\<rparr>
       False True SCRYPT_OK
     \<in> set (fst (main example_world ?argv'))"
    by (simp add: example_world_def locals_init_def params_init_def)
  from t t' h h' show ?thesis by simp
qed

end
